theory Spec2Isabelle
  imports Complex_Main "HOL-Library.AList"
begin

section \<open>Conventions\<close>

text \<open>
  A shallow embedding of the aggregation core of the SDK: the field router
  (\<^verbatim>\<open>field-router.ts\<close>), the data aggregator (\<^verbatim>\<open>data-aggregator.ts\<close>), the
  memory cache (\<^verbatim>\<open>memory-cache.ts\<close>) and the retry executor and circuit breaker
  (\<^verbatim>\<open>utils/errors.ts\<close>).

  \<^item> A JavaScript \<^verbatim>\<open>number\<close> is a \<open>real\<close> (counters are \<open>nat\<close>); a \<^verbatim>\<open>Date\<close> and
    \<^verbatim>\<open>Date.now()\<close> are the number of milliseconds, passed in by the caller.
  \<^item> A \<^verbatim>\<open>Map\<close> that the code iterates is an association list in insertion
    order (\<open>AList.update\<close> is \<^verbatim>\<open>Map.set\<close>: it overwrites in place or appends);
    a \<^verbatim>\<open>Map\<close> that is only read by key is a map \<open>'k \<rightharpoonup> 'v\<close>.
  \<^item> \<^verbatim>\<open>undefined\<close> and \<^verbatim>\<open>null\<close> are \<open>None\<close>; the falsy string is \<open>''''\<close>.
\<close>

section \<open>Field router\<close>

subsection \<open>Data\<close>

text \<open>What a provider call did, as the aggregator sees it after the race against
  the timeout: a response object with its \<^verbatim>\<open>success\<close>, \<^verbatim>\<open>data\<close> and \<^verbatim>\<open>error\<close>
  properties (the last two are optional), or a rejection carrying an error message
  (a thrown error, or the timer's \<^verbatim>\<open>Request timeout after ...ms\<close>). The data of a
  response is the record of the fields it holds.\<close>

datatype 'v reply =
  Response bool "(string \<rightharpoonup> 'v) option" "string option"
| Rejected string

text \<open>Where a provider is called from: the parallel round, or as the \<open>i\<close>-th fallback
  of a field. Each call site has its own answer and its own elapsed time.\<close>

datatype callsite = Primary | Fallback string nat

record 'v DataProvider =
  pname :: string
  tokenData :: "string list option"
  walletData :: "string list option"
  getTokenData :: "callsite \<Rightarrow> 'v reply \<times> real"
  getWalletData :: "callsite \<Rightarrow> 'v reply \<times> real"

record ProviderMetrics =
  m_provider :: string
  avgResponseTime :: real
  successRate :: real
  lastUsed :: real
  totalRequests :: nat
  failedRequests :: nat
  cost :: "real option"

record RoutingPlan =
  rp_field :: string
  rp_provider :: string
  fallbackProviders :: "string list"
  est_responseTime :: real
  est_successRate :: real
  est_cost :: "real option"

datatype RoutingStrategy = fastest | priority | cost_strategy | reliability

record 'v FieldRouter =
  providers :: "(string \<times> 'v DataProvider) list"
  metrics :: "string \<rightharpoonup> ProviderMetrics"
  fieldPriorities :: "string \<rightharpoonup> string list"

subsection \<open>Registration and metrics\<close>

definition registerProvider :: "real \<Rightarrow> 'v DataProvider \<Rightarrow> 'v FieldRouter \<Rightarrow> 'v FieldRouter" where
  "registerProvider now p r =
     r\<lparr>providers := AList.update (pname p) p (providers r),
       metrics :=
         (case metrics r (pname p) of
            Some _ \<Rightarrow> metrics r
          | None \<Rightarrow> (metrics r)(pname p \<mapsto>
              \<lparr>m_provider = pname p, avgResponseTime = 1000, successRate = 1,
               lastUsed = now, totalRequests = 0, failedRequests = 0, cost = None\<rparr>))\<rparr>"

definition unregisterProvider :: "string \<Rightarrow> 'v FieldRouter \<Rightarrow> 'v FieldRouter" where
  "unregisterProvider providerName r =
     r\<lparr>providers := AList.delete providerName (providers r),
       metrics := (metrics r)(providerName := None)\<rparr>"

definition setFieldPriority :: "string \<Rightarrow> string list \<Rightarrow> 'v FieldRouter \<Rightarrow> 'v FieldRouter" where
  "setFieldPriority field ps r = r\<lparr>fieldPriorities := (fieldPriorities r)(field \<mapsto> ps)\<rparr>"

definition getFieldPriorities :: "'v FieldRouter \<Rightarrow> string \<Rightarrow> string list option" where
  "getFieldPriorities r field = fieldPriorities r field"

text \<open>The constructor: register every provider, then copy the priority table.\<close>

definition newFieldRouter ::
  "real \<Rightarrow> 'v DataProvider list \<Rightarrow> (string \<times> string list) list \<Rightarrow> 'v FieldRouter" where
  "newFieldRouter now ps prios =
     fold (\<lambda>(f, l) r. r\<lparr>fieldPriorities := (fieldPriorities r)(f \<mapsto> l)\<rparr>) prios
       (fold (registerProvider now) ps
          \<lparr>providers = [], metrics = Map.empty, fieldPriorities = Map.empty\<rparr>)"

text \<open>\<^verbatim>\<open>updateMetrics\<close>: returns at once when the provider has no metrics record.\<close>

definition updateMetrics :: "real \<Rightarrow> string \<Rightarrow> real \<Rightarrow> bool \<Rightarrow> 'v FieldRouter \<Rightarrow> 'v FieldRouter" where
  "updateMetrics now provider responseTime ok r =
     (case metrics r provider of
        None \<Rightarrow> r
      | Some m \<Rightarrow>
          let m1 = m\<lparr>totalRequests := totalRequests m + 1, lastUsed := now\<rparr>;
              m2 = (if ok
                    then m1\<lparr>avgResponseTime := 0.1 * responseTime + (1 - 0.1) * avgResponseTime m1\<rparr>
                    else m1\<lparr>failedRequests := failedRequests m1 + 1\<rparr>);
              m3 = m2\<lparr>successRate :=
                         (real (totalRequests m2) - real (failedRequests m2)) / real (totalRequests m2)\<rparr>
          in r\<lparr>metrics := (metrics r)(provider \<mapsto> m3)\<rparr>)"

subsection \<open>Candidates and the optimal provider\<close>

text \<open>\<^verbatim>\<open>provider.capabilities.tokenData?.includes(field)\<close>, and the same for wallet
  fields.\<close>

definition declaresTokenField :: "'v DataProvider \<Rightarrow> string \<Rightarrow> bool" where
  "declaresTokenField p field = (case tokenData p of None \<Rightarrow> False | Some fs \<Rightarrow> field \<in> set fs)"

definition declaresWalletField :: "'v DataProvider \<Rightarrow> string \<Rightarrow> bool" where
  "declaresWalletField p field = (case walletData p of None \<Rightarrow> False | Some fs \<Rightarrow> field \<in> set fs)"

definition getProvidersForTokenField :: "'v FieldRouter \<Rightarrow> string \<Rightarrow> string list" where
  "getProvidersForTokenField r field =
     map fst (filter (\<lambda>(n, p). declaresTokenField p field) (providers r))"

definition getProvidersForWalletField :: "'v FieldRouter \<Rightarrow> string \<Rightarrow> string list" where
  "getProvidersForWalletField r field =
     map fst (filter (\<lambda>(n, p). declaresWalletField p field) (providers r))"

text \<open>\<^verbatim>\<open>availableProviders[0] || ''\<close>.\<close>

definition firstOrEmpty :: "string list \<Rightarrow> string" where
  "firstOrEmpty xs = (case xs of [] \<Rightarrow> [] | x # _ \<Rightarrow> x)"

definition getProviderByPriority :: "'v FieldRouter \<Rightarrow> string \<Rightarrow> string list \<Rightarrow> string" where
  "getProviderByPriority r field availableProviders =
     (case fieldPriorities r field of
        Some priorities \<Rightarrow>
          (case find (\<lambda>p. p \<in> set availableProviders) priorities of
             Some p \<Rightarrow> p
           | None \<Rightarrow> firstOrEmpty availableProviders)
      | None \<Rightarrow> firstOrEmpty availableProviders)"

text \<open>The three metric-driven choices scan the candidates and keep the best so far;
  \<^verbatim>\<open>Infinity\<close> is \<open>None\<close>. The closing \<^verbatim>\<open>x || availableProviders[0] || ''\<close> is
  \<open>orFirst\<close>.\<close>

definition orFirst :: "string \<Rightarrow> string list \<Rightarrow> string" where
  "orFirst x xs = (if x \<noteq> [] then x else firstOrEmpty xs)"

definition getFastestProvider :: "'v FieldRouter \<Rightarrow> string list \<Rightarrow> string" where
  "getFastestProvider r availableProviders =
     (let fastest0 = firstOrEmpty availableProviders;
          time0 = map_option avgResponseTime (metrics r fastest0);
          step = (\<lambda>provider (best, bestTime).
                    case metrics r provider of
                      None \<Rightarrow> (best, bestTime)
                    | Some m \<Rightarrow>
                        (case bestTime of
                           None \<Rightarrow> (provider, Some (avgResponseTime m))
                         | Some t \<Rightarrow> if avgResponseTime m < t then (provider, Some (avgResponseTime m))
                                     else (best, bestTime)))
      in orFirst (fst (fold step availableProviders (fastest0, time0))) availableProviders)"

definition getMostReliableProvider :: "'v FieldRouter \<Rightarrow> string list \<Rightarrow> string" where
  "getMostReliableProvider r availableProviders =
     (let first = firstOrEmpty availableProviders;
          rate0 = (case metrics r first of None \<Rightarrow> 0 | Some m \<Rightarrow> successRate m);
          step = (\<lambda>provider (best, bestRate).
                    case metrics r provider of
                      None \<Rightarrow> (best, bestRate)
                    | Some m \<Rightarrow> if successRate m > bestRate then (provider, successRate m)
                                else (best, bestRate))
      in orFirst (fst (fold step availableProviders (first, rate0))) availableProviders)"

definition costOrZero :: "ProviderMetrics \<Rightarrow> real" where
  "costOrZero m = (case cost m of None \<Rightarrow> 0 | Some c \<Rightarrow> c)"

definition getCheapestProvider :: "'v FieldRouter \<Rightarrow> string list \<Rightarrow> string" where
  "getCheapestProvider r availableProviders =
     (let first = firstOrEmpty availableProviders;
          cost0 = (case metrics r first of None \<Rightarrow> 0 | Some m \<Rightarrow> costOrZero m);
          step = (\<lambda>provider (best, bestCost).
                    case metrics r provider of
                      None \<Rightarrow> (best, bestCost)
                    | Some m \<Rightarrow> if costOrZero m < bestCost then (provider, costOrZero m)
                                else (best, bestCost))
      in orFirst (fst (fold step availableProviders (first, cost0))) availableProviders)"

text \<open>\<^verbatim>\<open>getOptimalProvider\<close> returns a string or \<^verbatim>\<open>null\<close>; with one candidate it is
  \<^verbatim>\<open>availableProviders[0] || null\<close>, so the empty name becomes \<^verbatim>\<open>null\<close>.\<close>

definition getOptimalProvider ::
  "'v FieldRouter \<Rightarrow> string \<Rightarrow> string list \<Rightarrow> RoutingStrategy \<Rightarrow> string option" where
  "getOptimalProvider r field availableProviders strategy =
     (case availableProviders of
        [] \<Rightarrow> None
      | [p] \<Rightarrow> (if p \<noteq> [] then Some p else None)
      | _ \<Rightarrow>
          (case strategy of
             priority \<Rightarrow> Some (getProviderByPriority r field availableProviders)
           | fastest \<Rightarrow> Some (getFastestProvider r availableProviders)
           | reliability \<Rightarrow> Some (getMostReliableProvider r availableProviders)
           | cost_strategy \<Rightarrow> Some (getCheapestProvider r availableProviders)))"

subsection \<open>Routing plans\<close>

text \<open>The comparator of the fallback sort, and the sort: \<^verbatim>\<open>Array.prototype.sort\<close> is
  stable, and for a comparator that orders the candidates consistently (every
  registered provider has a metrics record) its result is that of a stable
  insertion sort.\<close>

definition compareFallback :: "'v FieldRouter \<Rightarrow> string \<Rightarrow> string \<Rightarrow> real" where
  "compareFallback r a b =
     (case (metrics r a, metrics r b) of
        (Some ma, Some mb) \<Rightarrow>
          if successRate ma \<noteq> successRate mb then successRate mb - successRate ma
          else avgResponseTime ma - avgResponseTime mb
      | _ \<Rightarrow> 0)"

fun insertBy :: "('a \<Rightarrow> 'a \<Rightarrow> real) \<Rightarrow> 'a \<Rightarrow> 'a list \<Rightarrow> 'a list" where
  "insertBy cmp x [] = [x]"
| "insertBy cmp x (y # ys) = (if cmp x y \<le> 0 then x # y # ys else y # insertBy cmp x ys)"

definition sortBy :: "('a \<Rightarrow> 'a \<Rightarrow> real) \<Rightarrow> 'a list \<Rightarrow> 'a list" where
  "sortBy cmp xs = foldr (insertBy cmp) xs []"

definition createRoutingPlan ::
  "'v FieldRouter \<Rightarrow> string \<Rightarrow> string list \<Rightarrow> RoutingStrategy \<Rightarrow> RoutingPlan option" where
  "createRoutingPlan r field availableProviders strategy =
     (let primary = getOptimalProvider r field availableProviders strategy
      in if primary = None \<or> primary = Some []
         then (case fieldPriorities r field of
                 Some (firstPriority # rest) \<Rightarrow>
                   if firstPriority \<noteq> []
                   then Some \<lparr>rp_field = field, rp_provider = firstPriority,
                              fallbackProviders = rest,
                              est_responseTime = 1000, est_successRate = 0, est_cost = Some 0\<rparr>
                   else None
               | _ \<Rightarrow> None)
         else (let primaryProvider = the primary;
                   fallbacks = sortBy (compareFallback r)
                                 (filter (\<lambda>p. p \<noteq> primaryProvider) availableProviders);
                   m = metrics r primaryProvider
               in Some \<lparr>rp_field = field, rp_provider = primaryProvider,
                         fallbackProviders = fallbacks,
                         est_responseTime = (case m of None \<Rightarrow> 1000 | Some x \<Rightarrow> avgResponseTime x),
                         est_successRate = (case m of None \<Rightarrow> 1 | Some x \<Rightarrow> successRate x),
                         est_cost = (case m of None \<Rightarrow> None | Some x \<Rightarrow> cost x)\<rparr>))"

text \<open>\<^verbatim>\<open>getRoutingStrategy(options)\<close> reads nothing from the options: it is the
  router's default strategy, \<^verbatim>\<open>'priority'\<close>.\<close>

definition getRoutingStrategy :: RoutingStrategy where
  "getRoutingStrategy = priority"

text \<open>The plan is a \<^verbatim>\<open>Map\<close> from field to routing plan, in the order the fields were
  first planned.\<close>

definition planTokenDataRouting :: "'v FieldRouter \<Rightarrow> string list \<Rightarrow> (string \<times> RoutingPlan) list" where
  "planTokenDataRouting r flds =
     fold (\<lambda>field plan.
             case createRoutingPlan r field (getProvidersForTokenField r field) getRoutingStrategy of
               Some routingPlan \<Rightarrow> AList.update field routingPlan plan
             | None \<Rightarrow> plan)
          flds []"

definition planWalletDataRouting :: "'v FieldRouter \<Rightarrow> string list \<Rightarrow> (string \<times> RoutingPlan) list" where
  "planWalletDataRouting r flds =
     fold (\<lambda>field plan.
             case createRoutingPlan r field (getProvidersForWalletField r field) getRoutingStrategy of
               Some routingPlan \<Rightarrow> AList.update field routingPlan plan
             | None \<Rightarrow> plan)
          flds []"

section \<open>Retry executor and circuit breaker\<close>

subsection \<open>Backoff delay\<close>

record RetryConfig =
  maxAttempts :: int
  baseDelay :: real
  maxDelay :: real
  backoffMultiplier :: real
  jitter :: bool

text \<open>\<^verbatim>\<open>Math.round\<close> rounds half up: \<open>\<lfloor>x + 1/2\<rfloor>\<close>.\<close>

definition js_round :: "real \<Rightarrow> int" where
  "js_round x = \<lfloor>x + 1 / 2\<rfloor>"

text \<open>\<^verbatim>\<open>calculateDelay(attempt, config)\<close>; \<open>rnd\<close> is the value \<^verbatim>\<open>Math.random()\<close>
  returns, a number in \<open>[0, 1)\<close>. The arithmetic is the exact one, over the reals.\<close>

definition calculateDelay :: "int \<Rightarrow> RetryConfig \<Rightarrow> real \<Rightarrow> int" where
  "calculateDelay attempt config rnd =
     (let delay0 = baseDelay config * (backoffMultiplier config powi (attempt - 1));
          delay1 = min delay0 (maxDelay config);
          delay2 = (if jitter config
                    then (let jitterRange = delay1 * 0.1;
                              jit = (rnd * 2 - 1) * jitterRange
                          in delay1 + jit)
                    else delay1)
      in max 0 (js_round delay2))"

subsection \<open>Circuit breaker\<close>

datatype BreakerState = Closed | Open | HalfOpen

record CircuitBreaker =
  failures :: nat
  lastFailureTime :: "real option"
  state :: BreakerState
  failureThreshold :: real
  recoveryTime :: real
  successThreshold :: real

definition newCircuitBreaker :: "real \<Rightarrow> real \<Rightarrow> real \<Rightarrow> CircuitBreaker" where
  "newCircuitBreaker ft rt st =
     \<lparr>failures = 0, lastFailureTime = None, state = Closed,
      failureThreshold = ft, recoveryTime = rt, successThreshold = st\<rparr>"

definition defaultCircuitBreaker :: CircuitBreaker where
  "defaultCircuitBreaker = newCircuitBreaker 5 60000 2"

definition onSuccess :: "CircuitBreaker \<Rightarrow> CircuitBreaker" where
  "onSuccess b =
     (if state b = HalfOpen
      then (let b1 = b\<lparr>failures := failures b - 1\<rparr>
            in if failures b1 = 0 then b1\<lparr>state := Closed\<rparr> else b1)
      else b\<lparr>failures := 0\<rparr>)"

definition onFailure :: "real \<Rightarrow> CircuitBreaker \<Rightarrow> CircuitBreaker" where
  "onFailure now b =
     (let b1 = b\<lparr>failures := failures b + 1, lastFailureTime := Some now\<rparr>
      in if real (failures b1) \<ge> failureThreshold b1 then b1\<lparr>state := Open\<rparr> else b1)"

definition shouldAttemptRecovery :: "real \<Rightarrow> CircuitBreaker \<Rightarrow> bool" where
  "shouldAttemptRecovery now b =
     (case lastFailureTime b of
        None \<Rightarrow> True
      | Some t \<Rightarrow> now - t \<ge> recoveryTime b)"

text \<open>What the guarded function does when it is run: it returns, or it throws.\<close>

datatype 'a outcome = Returned 'a | Threw string

text \<open>\<^verbatim>\<open>execute(fn)\<close> at time \<open>now\<close>, which is both the clock that
  \<^verbatim>\<open>shouldAttemptRecovery\<close> reads and the date that \<^verbatim>\<open>onFailure\<close> records. The
  breaker's own rejection is the thrown \<^verbatim>\<open>Circuit breaker is open\<close>, and then \<open>fn\<close>
  is not run.\<close>

definition execute :: "real \<Rightarrow> 'a outcome \<Rightarrow> CircuitBreaker \<Rightarrow> 'a outcome \<times> CircuitBreaker" where
  "execute now fn b =
     (if state b = Open \<and> \<not> shouldAttemptRecovery now b
      then (Threw ''Circuit breaker is open'', b)
      else (let b1 = (if state b = Open then b\<lparr>state := HalfOpen\<rparr> else b)
            in case fn of
                 Returned x \<Rightarrow> (Returned x, onSuccess b1)
               | Threw e \<Rightarrow> (Threw e, onFailure now b1)))"

text \<open>A history of guarded calls, each with the time it is made at.\<close>

fun executeAll :: "(real \<times> 'a outcome) list \<Rightarrow> CircuitBreaker \<Rightarrow> CircuitBreaker" where
  "executeAll [] b = b"
| "executeAll ((now, fn) # calls) b = executeAll calls (snd (execute now fn b))"

section \<open>Memory cache\<close>

subsection \<open>Data\<close>

text \<open>
  The cache is a \<^verbatim>\<open>Map\<close> from keys to list nodes and a doubly linked list through
  the nodes, most recently used first. Every node is created for one key, stored
  under that key and dropped when the key is deleted, so the key is the node's
  address: \<open>node_prev\<close>, \<open>node_next\<close>, \<open>head\<close> and \<open>tail\<close> hold keys, and a write
  through a node reference (\<^verbatim>\<open>node.prev.next = ...\<close>) is an update of the store at
  that key. The store is the \<^verbatim>\<open>Map\<close> itself, in insertion order.
\<close>

record 'v CacheEntry =
  ce_value :: 'v
  ttl :: real
  createdAt :: real
  expiresAt :: real
  accessCount :: nat
  lastAccessed :: real

record 'v LRUNode =
  entry :: "'v CacheEntry"
  node_prev :: "string option"
  node_next :: "string option"

record CacheStats =
  hits :: nat
  misses :: nat
  hitRate :: real
  st_size :: int
  st_maxSize :: real
  memoryUsage :: nat

datatype CacheEvent = ev_hit | ev_miss | ev_set | ev_delete | ev_clear | ev_expired | ev_evicted

text \<open>
  Listeners are observers, named by a number; \<open>emitted\<close> is the log of the calls made
  to them, oldest first: which listener, which event, which key. What a listener
  throws is caught and logged, so a call changes nothing else. \<open>estimateObjectSize\<close>
  is the size estimate of a stored value, a function of the value alone.
\<close>

record 'v MemoryCache =
  cache :: "(string \<times> 'v LRUNode) list"
  head :: "string option"
  tail :: "string option"
  stats :: CacheStats
  defaultTtl :: real
  maxSize :: real
  enableStats :: bool
  estimateObjectSize :: "'v \<Rightarrow> nat"
  eventListeners :: "nat list"
  emitted :: "(nat \<times> CacheEvent \<times> string) list"

definition newMemoryCache :: "real \<Rightarrow> real \<Rightarrow> bool \<Rightarrow> ('v \<Rightarrow> nat) \<Rightarrow> 'v MemoryCache" where
  "newMemoryCache dttl msize estats esize =
     \<lparr>cache = [], head = None, tail = None,
      stats = \<lparr>hits = 0, misses = 0, hitRate = 0, st_size = 0, st_maxSize = msize, memoryUsage = 0\<rparr>,
      defaultTtl = dttl, maxSize = msize, enableStats = estats, estimateObjectSize = esize,
      eventListeners = [], emitted = []\<rparr>"

definition addEventListener :: "nat \<Rightarrow> 'v MemoryCache \<Rightarrow> 'v MemoryCache" where
  "addEventListener l c = c\<lparr>eventListeners := eventListeners c @ [l]\<rparr>"

subsection \<open>Private helpers\<close>

definition emitEvent :: "CacheEvent \<Rightarrow> string \<Rightarrow> 'v MemoryCache \<Rightarrow> 'v MemoryCache" where
  "emitEvent ev key c =
     (if eventListeners c = [] then c
      else c\<lparr>emitted := emitted c @ map (\<lambda>l. (l, ev, key)) (eventListeners c)\<rparr>)"

definition isExpired :: "real \<Rightarrow> 'v CacheEntry \<Rightarrow> bool" where
  "isExpired now e = (now > expiresAt e)"

definition incrementHits :: "'v MemoryCache \<Rightarrow> 'v MemoryCache" where
  "incrementHits c = (if enableStats c then c\<lparr>stats := (stats c)\<lparr>hits := hits (stats c) + 1\<rparr>\<rparr> else c)"

definition incrementMisses :: "'v MemoryCache \<Rightarrow> 'v MemoryCache" where
  "incrementMisses c = (if enableStats c then c\<lparr>stats := (stats c)\<lparr>misses := misses (stats c) + 1\<rparr>\<rparr> else c)"

definition updateMemoryUsage :: "'v MemoryCache \<Rightarrow> 'v MemoryCache" where
  "updateMemoryUsage c =
     (if \<not> enableStats c then c
      else c\<lparr>stats := (stats c)\<lparr>memoryUsage :=
             fold (\<lambda>(key, node) usage.
                     usage + length key * 2 + estimateObjectSize c (ce_value (entry node)) + 96)
                  (cache c) 0\<rparr>\<rparr>)"

text \<open>\<^verbatim>\<open>deleteNode(node)\<close>, for the node \<open>n\<close> stored under \<open>k\<close>.\<close>

definition deleteNode :: "string \<Rightarrow> 'v LRUNode \<Rightarrow> 'v MemoryCache \<Rightarrow> 'v MemoryCache" where
  "deleteNode k n c =
     (let c1 = c\<lparr>cache := AList.delete k (cache c)\<rparr>;
          c2 = (case node_prev n of
                  Some p \<Rightarrow> c1\<lparr>cache := AList.map_entry p (\<lambda>m. m\<lparr>node_next := node_next n\<rparr>) (cache c1)\<rparr>
                | None \<Rightarrow> c1\<lparr>head := node_next n\<rparr>);
          c3 = (case node_next n of
                  Some q \<Rightarrow> c2\<lparr>cache := AList.map_entry q (\<lambda>m. m\<lparr>node_prev := node_prev n\<rparr>) (cache c2)\<rparr>
                | None \<Rightarrow> c2\<lparr>tail := node_prev n\<rparr>);
          c4 = c3\<lparr>stats := (stats c3)\<lparr>st_size := st_size (stats c3) - 1\<rparr>\<rparr>
      in updateMemoryUsage c4)"

text \<open>\<^verbatim>\<open>addToHead(node)\<close>, for the node stored under \<open>k\<close>.\<close>

definition addToHead :: "string \<Rightarrow> 'v MemoryCache \<Rightarrow> 'v MemoryCache" where
  "addToHead k c =
     (let c1 = c\<lparr>cache := AList.map_entry k (\<lambda>m. m\<lparr>node_prev := None, node_next := head c\<rparr>) (cache c)\<rparr>;
          c2 = (case head c1 of
                  Some h \<Rightarrow> c1\<lparr>cache := AList.map_entry h (\<lambda>m. m\<lparr>node_prev := Some k\<rparr>) (cache c1)\<rparr>
                | None \<Rightarrow> c1);
          c3 = c2\<lparr>head := Some k\<rparr>
      in if tail c3 = None then c3\<lparr>tail := Some k\<rparr> else c3)"

text \<open>\<^verbatim>\<open>moveToHead(node)\<close>: a node without a predecessor is the head already.\<close>

definition moveToHead :: "string \<Rightarrow> 'v LRUNode \<Rightarrow> 'v MemoryCache \<Rightarrow> 'v MemoryCache" where
  "moveToHead k n c =
     (case node_prev n of
        None \<Rightarrow> c
      | Some p \<Rightarrow>
          (let c1 = c\<lparr>cache := AList.map_entry p (\<lambda>m. m\<lparr>node_next := node_next n\<rparr>) (cache c)\<rparr>;
               c2 = (case node_next n of
                       Some q \<Rightarrow> c1\<lparr>cache := AList.map_entry q (\<lambda>m. m\<lparr>node_prev := node_prev n\<rparr>) (cache c1)\<rparr>
                     | None \<Rightarrow> c1\<lparr>tail := node_prev n\<rparr>)
           in addToHead k c2))"

text \<open>\<^verbatim>\<open>evictLRU()\<close>: the tail is always a stored node; were it not, nothing is done.\<close>

definition evictLRU :: "'v MemoryCache \<Rightarrow> 'v MemoryCache" where
  "evictLRU c =
     (case tail c of
        None \<Rightarrow> c
      | Some k \<Rightarrow>
          (case map_of (cache c) k of
             None \<Rightarrow> c
           | Some lru \<Rightarrow> emitEvent ev_evicted k (deleteNode k lru c)))"

subsection \<open>Operations\<close>

text \<open>Each operation takes the value of \<^verbatim>\<open>Date.now()\<close> while it runs; \<^verbatim>\<open>null\<close> is
  \<open>None\<close>.\<close>

definition cache_get :: "real \<Rightarrow> string \<Rightarrow> 'v MemoryCache \<Rightarrow> 'v option \<times> 'v MemoryCache" where
  "cache_get now key c =
     (case map_of (cache c) key of
        None \<Rightarrow> (None, emitEvent ev_miss key (incrementMisses c))
      | Some node \<Rightarrow>
          if isExpired now (entry node)
          then (None, emitEvent ev_expired key (incrementMisses (deleteNode key node c)))
          else (let node1 = node\<lparr>entry := (entry node)\<lparr>accessCount := accessCount (entry node) + 1,
                                                       lastAccessed := now\<rparr>\<rparr>;
                    c1 = c\<lparr>cache := AList.update key node1 (cache c)\<rparr>;
                    c2 = moveToHead key node1 c1
                in (Some (ce_value (entry node1)), emitEvent ev_hit key (incrementHits c2))))"

definition cache_set :: "real \<Rightarrow> string \<Rightarrow> 'v \<Rightarrow> real option \<Rightarrow> 'v MemoryCache \<Rightarrow> 'v MemoryCache" where
  "cache_set now key v ttl_opt c =
     (let timeToLive = (case ttl_opt of None \<Rightarrow> defaultTtl c | Some t \<Rightarrow> t) * 1000;
          e = \<lparr>ce_value = v, ttl = timeToLive, createdAt = now, expiresAt = now + timeToLive,
               accessCount = 0, lastAccessed = now\<rparr>;
          c3 = (case map_of (cache c) key of
                  Some existingNode \<Rightarrow>
                    (let node1 = existingNode\<lparr>entry := e\<rparr>
                     in moveToHead key node1 (c\<lparr>cache := AList.update key node1 (cache c)\<rparr>))
                | None \<Rightarrow>
                    (let newNode = \<lparr>entry = e, node_prev = None, node_next = None\<rparr>;
                         c1 = (if real (length (cache c)) \<ge> maxSize c then evictLRU c else c);
                         c2 = addToHead key (c1\<lparr>cache := AList.update key newNode (cache c1)\<rparr>)
                     in c2\<lparr>stats := (stats c2)\<lparr>st_size := st_size (stats c2) + 1\<rparr>\<rparr>))
      in emitEvent ev_set key (updateMemoryUsage c3))"

definition cache_delete :: "string \<Rightarrow> 'v MemoryCache \<Rightarrow> bool \<times> 'v MemoryCache" where
  "cache_delete key c =
     (case map_of (cache c) key of
        None \<Rightarrow> (False, c)
      | Some node \<Rightarrow> (True, emitEvent ev_delete key (deleteNode key node c)))"

definition cache_clear :: "'v MemoryCache \<Rightarrow> 'v MemoryCache" where
  "cache_clear c =
     emitEvent ev_clear []
       (c\<lparr>cache := [], head := None, tail := None,
          stats := (stats c)\<lparr>st_size := 0, memoryUsage := 0\<rparr>\<rparr>)"

definition cache_has :: "real \<Rightarrow> string \<Rightarrow> 'v MemoryCache \<Rightarrow> bool \<times> 'v MemoryCache" where
  "cache_has now key c =
     (case map_of (cache c) key of
        None \<Rightarrow> (False, c)
      | Some node \<Rightarrow>
          if isExpired now (entry node) then (False, deleteNode key node c) else (True, c))"

text \<open>\<^verbatim>\<open>cleanupExpired()\<close>: collect the expired keys, then delete each that is still
  stored.\<close>

definition cleanupExpired :: "real \<Rightarrow> 'v MemoryCache \<Rightarrow> nat \<times> 'v MemoryCache" where
  "cleanupExpired now c =
     (let expiredKeys = map fst (filter (\<lambda>(key, node). isExpired now (entry node)) (cache c))
      in (length expiredKeys,
          fold (\<lambda>key c'. case map_of (cache c') key of
                            None \<Rightarrow> c'
                          | Some node \<Rightarrow> emitEvent ev_expired key (deleteNode key node c'))
               expiredKeys c))"

definition getKeys :: "'v MemoryCache \<Rightarrow> string list" where
  "getKeys c = map fst (cache c)"

text \<open>Two readings of a cache state used in the statements below: the entry stored
  under a key, and the entry that \<^verbatim>\<open>set\<close> builds at time \<open>now\<close> for a value and a
  time to live in milliseconds.\<close>

definition entryAt :: "'v MemoryCache \<Rightarrow> string \<Rightarrow> 'v CacheEntry option" where
  "entryAt c k = map_option entry (map_of (cache c) k)"

definition freshEntry :: "real \<Rightarrow> 'v \<Rightarrow> real \<Rightarrow> 'v CacheEntry" where
  "freshEntry now v ms =
     \<lparr>ce_value = v, ttl = ms, createdAt = now, expiresAt = now + ms, accessCount = 0,
      lastAccessed = now\<rparr>"

definition timeToLive :: "'v MemoryCache \<Rightarrow> real option \<Rightarrow> real" where
  "timeToLive c ttl_opt = (case ttl_opt of None \<Rightarrow> defaultTtl c | Some t \<Rightarrow> t) * 1000"

section \<open>Data aggregator\<close>

subsection \<open>Data\<close>

text \<open>
  \<open>'v\<close> is the type of the JavaScript values that providers return for a field, an
  object being its reference, so that \<^verbatim>\<open>!==\<close> is \<open>\<noteq>\<close> (\<^verbatim>\<open>NaN\<close> is left out).
  \<^verbatim>\<open>JSON.stringify\<close> is a parameter of the model: it returns the text (\<open>Inr\<close>) or
  throws (\<open>Inl\<close>, with the message of the error), as it does for a cyclic object or
  a \<^verbatim>\<open>BigInt\<close>. An \<^verbatim>\<open>Error\<close> is its message.
\<close>

type_synonym 'v stringify = "'v \<Rightarrow> string + string"

record 'v ProviderExecution =
  pe_provider :: string
  pe_success :: bool
  pe_data :: "(string \<rightharpoonup> 'v) option"
  pe_error :: "string option"
  pe_responseTime :: real
  fieldsProvided :: "string list"

record 'v UniqueValue =
  uv_provider :: string
  uv_value :: 'v
  uv_count :: nat

record 'v FieldAggregationResult =
  far_field :: string
  far_value :: 'v
  sources :: "string list"
  confidence :: real
  conflicts :: "'v UniqueValue list option"

datatype CombineStrategy = cs_first | cs_latest | cs_average | cs_weighted | cs_vote

datatype ConflictResolution = cr_priority | cr_newest | cr_majority | cr_manual

record AggregationStrategy =
  combineStrategy :: CombineStrategy
  conflictResolution :: ConflictResolution

text \<open>The properties of the returned data object: a field's value, the list under
  \<^verbatim>\<open>dataSource\<close>, or the date under \<^verbatim>\<open>lastUpdated\<close>. The object is the list of its
  properties in the order they were first assigned.\<close>

datatype 'v property = FieldValue 'v | Sources "string list" | DateValue real

record ErrorEntry =
  err_provider :: string
  err_error :: string
  recoverable :: bool

record ResponseMetadata =
  md_dataSources :: "string list"
  md_cacheStatus :: string
  md_responseTime :: real
  md_timestamp :: real
  md_providerHealth :: "(string \<times> bool) list option"

record 'v SDKResponse =
  resp_data :: "(string \<times> 'v property) list"
  resp_metadata :: ResponseMetadata
  resp_errors :: "ErrorEntry list"

record 'v DataAggregator =
  fieldRouter :: "'v FieldRouter"
  agg_providers :: "(string \<times> 'v DataProvider) list"

definition defaultStrategy :: AggregationStrategy where
  "defaultStrategy = \<lparr>combineStrategy = cs_first, conflictResolution = cr_priority\<rparr>"

definition newDataAggregator ::
  "real \<Rightarrow> 'v DataProvider list \<Rightarrow> (string \<times> string list) list \<Rightarrow> 'v DataAggregator" where
  "newDataAggregator now ps prios =
     \<lparr>fieldRouter = newFieldRouter now ps prios,
      agg_providers = fold (\<lambda>p m. AList.update (pname p) p m) ps []\<rparr>"

record TokenDataAggregationRequest =
  assetUnit :: string
  tok_fields :: "string list"
  tok_strategy :: "AggregationStrategy option"

record WalletDataAggregationRequest =
  address :: string
  wal_fields :: "string list"
  wal_strategy :: "AggregationStrategy option"

subsection \<open>Executing the provider requests\<close>

text \<open>\<^verbatim>\<open>x || 'unknown'\<close>.\<close>

definition orUnknown :: "string \<Rightarrow> string" where
  "orUnknown x = (if x \<noteq> [] then x else ''unknown'')"

text \<open>Step 2 of \<^verbatim>\<open>aggregateTokenData\<close>: one failed execution for each requested
  field that the plan does not hold.\<close>

definition missingProviderExecutions ::
  "'v FieldRouter \<Rightarrow> string list \<Rightarrow> (string \<times> RoutingPlan) list \<Rightarrow> 'v ProviderExecution list" where
  "missingProviderExecutions r flds routingPlan =
     concat (map (\<lambda>field.
        if map_of routingPlan field = None
        then (let missingProvider =
                    (case getFieldPriorities r field of
                       Some (p # _) \<Rightarrow> orUnknown p
                     | _ \<Rightarrow> ''unknown'')
              in [\<lparr>pe_provider = missingProvider, pe_success = False, pe_data = None,
                   pe_error = Some (''Provider '' @ missingProvider @ '' not found''),
                   pe_responseTime = 1, fieldsProvided = []\<rparr>])
        else []) flds)"

text \<open>\<^verbatim>\<open>providerRequests\<close> is a \<^verbatim>\<open>Map\<close> from provider name to the fields asked of it.
  \<open>pushField\<close> is the grouping step (create the entry when missing, then push);
  \<open>pushFieldOnce\<close> is the step of the second loop, which pushes a field only when
  the entry does not include it.\<close>

definition pushField :: "string \<Rightarrow> string \<Rightarrow> (string \<times> string list) list \<Rightarrow> (string \<times> string list) list" where
  "pushField p field reqs =
     (case map_of reqs p of
        None \<Rightarrow> AList.update p [field] reqs
      | Some fs \<Rightarrow> AList.update p (fs @ [field]) reqs)"

definition pushFieldOnce :: "string \<Rightarrow> string \<Rightarrow> (string \<times> string list) list \<Rightarrow> (string \<times> string list) list" where
  "pushFieldOnce p field reqs =
     (case map_of reqs p of
        None \<Rightarrow> AList.update p [field] reqs
      | Some fs \<Rightarrow> if field \<in> set fs then reqs else AList.update p (fs @ [field]) reqs)"

definition groupByProvider :: "(string \<times> RoutingPlan) list \<Rightarrow> (string \<times> string list) list" where
  "groupByProvider routingPlan =
     fold (\<lambda>(field, plan) reqs. pushField (rp_provider plan) field reqs) routingPlan []"

text \<open>The second loop of \<^verbatim>\<open>executeTokenDataRequests\<close>: for a field with more than one
  priority entry, every other priority provider that is registered and declares
  the field is asked too. \<open>priorityStep\<close> is the body of the inner loop, for one name
  of the priority list.\<close>

definition priorityStep ::
  "(string \<times> 'v DataProvider) list \<Rightarrow> string \<Rightarrow> string \<Rightarrow> string
     \<Rightarrow> (string \<times> string list) list \<Rightarrow> (string \<times> string list) list" where
  "priorityStep provs primary field providerName reqs =
     (if providerName \<noteq> primary
      then (case map_of provs providerName of
              None \<Rightarrow> reqs
            | Some provider \<Rightarrow>
                if declaresTokenField provider field
                then pushFieldOnce providerName field reqs
                else reqs)
      else reqs)"

definition addPriorityProviders ::
  "'v DataAggregator \<Rightarrow> (string \<times> RoutingPlan) list \<Rightarrow> (string \<times> string list) list
     \<Rightarrow> (string \<times> string list) list" where
  "addPriorityProviders agg routingPlan reqs0 =
     fold (\<lambda>(field, plan) reqs.
             case getFieldPriorities (fieldRouter agg) field of
               None \<Rightarrow> reqs
             | Some fieldPrios \<Rightarrow>
                 if length fieldPrios > 1
                 then fold (priorityStep (agg_providers agg) (rp_provider plan) field) fieldPrios reqs
                 else reqs)
          routingPlan reqs0"

text \<open>One call of the parallel round, through the provider's \<^verbatim>\<open>getTokenData\<close> or
  \<^verbatim>\<open>getWalletData\<close> (\<open>call\<close>). Beside the execution record it yields the call of
  \<^verbatim>\<open>updateMetrics\<close> it makes, if any: provider, response time, success. For a name
  that is not registered no time passes between the two readings of the clock.\<close>

type_synonym metricsUpdate = "string \<times> real \<times> bool"

definition runRequest ::
  "('v DataProvider \<Rightarrow> callsite \<Rightarrow> 'v reply \<times> real) \<Rightarrow> 'v DataAggregator \<Rightarrow> string \<times> string list
     \<Rightarrow> 'v ProviderExecution \<times> metricsUpdate list" where
  "runRequest call agg req =
     (case req of (providerName, flds) \<Rightarrow>
        (case map_of (agg_providers agg) providerName of
           None \<Rightarrow>
             (\<lparr>pe_provider = providerName, pe_success = False, pe_data = None,
               pe_error = Some (''Provider '' @ providerName @ '' not found''),
               pe_responseTime = 0, fieldsProvided = []\<rparr>, [])
         | Some provider \<Rightarrow>
             (case call provider Primary of
                (Response ok d err, rt) \<Rightarrow>
                  (if ok
                   then \<lparr>pe_provider = providerName, pe_success = True, pe_data = d,
                         pe_error = None, pe_responseTime = rt, fieldsProvided = flds\<rparr>
                   else \<lparr>pe_provider = providerName, pe_success = False, pe_data = None,
                         pe_error = err, pe_responseTime = rt, fieldsProvided = []\<rparr>,
                   [(providerName, rt, ok)])
              | (Rejected msg, rt) \<Rightarrow>
                  (\<lparr>pe_provider = providerName, pe_success = False, pe_data = None,
                    pe_error = Some msg, pe_responseTime = rt, fieldsProvided = []\<rparr>,
                   [(providerName, rt, False)]))))"

text \<open>The fallback loop of one field: the fallbacks in order, \<open>i\<close> counting them; an
  unregistered fallback and one that already succeeded in the parallel round are
  skipped; a rejected call is skipped without a metrics update; the first success
  ends the loop.\<close>

fun tryFallbacks ::
  "('v DataProvider \<Rightarrow> callsite \<Rightarrow> 'v reply \<times> real) \<Rightarrow> 'v DataAggregator
     \<Rightarrow> 'v ProviderExecution list \<Rightarrow> string \<Rightarrow> nat \<Rightarrow> string list
     \<Rightarrow> 'v ProviderExecution list \<times> metricsUpdate list" where
  "tryFallbacks call agg executions field i [] = ([], [])"
| "tryFallbacks call agg executions field i (fallbackProvider # rest) =
     (case map_of (agg_providers agg) fallbackProvider of
        None \<Rightarrow> tryFallbacks call agg executions field (i + 1) rest
      | Some provider \<Rightarrow>
          if list_ex (\<lambda>e. pe_provider e = fallbackProvider \<and> pe_success e) executions
          then tryFallbacks call agg executions field (i + 1) rest
          else (case call provider (Fallback field i) of
                  (Response ok d err, rt) \<Rightarrow>
                    if ok
                    then ([\<lparr>pe_provider = fallbackProvider, pe_success = True, pe_data = d,
                             pe_error = None, pe_responseTime = rt, fieldsProvided = [field]\<rparr>],
                          [(fallbackProvider, rt, True)])
                    else (case tryFallbacks call agg executions field (i + 1) rest of
                            (es, us) \<Rightarrow> (es, (fallbackProvider, rt, False) # us))
                | (Rejected msg, rt) \<Rightarrow> tryFallbacks call agg executions field (i + 1) rest))"

definition fallbacksFor ::
  "('v DataProvider \<Rightarrow> callsite \<Rightarrow> 'v reply \<times> real) \<Rightarrow> 'v DataAggregator
     \<Rightarrow> 'v ProviderExecution list \<Rightarrow> string \<times> RoutingPlan
     \<Rightarrow> 'v ProviderExecution list \<times> metricsUpdate list" where
  "fallbacksFor call agg executions fp =
     (case fp of (field, plan) \<Rightarrow>
        (case find (\<lambda>e. pe_provider e = rp_provider plan) executions of
           None \<Rightarrow> ([], [])
         | Some primaryExecution \<Rightarrow>
             if \<not> pe_success primaryExecution \<and> fallbackProviders plan \<noteq> []
             then tryFallbacks call agg executions field 0 (fallbackProviders plan)
             else ([], [])))"

text \<open>\<^verbatim>\<open>executeTokenDataRequests\<close> and \<^verbatim>\<open>executeWalletDataRequests\<close>: the executions
  of the parallel round in the order of \<^verbatim>\<open>providerRequests\<close>, then the successful
  fallbacks in the order of the plan; and the metrics updates made on the way. The
  wallet version has no second loop.\<close>

definition executeTokenDataRequests ::
  "'v DataAggregator \<Rightarrow> (string \<times> RoutingPlan) list
     \<Rightarrow> 'v ProviderExecution list \<times> metricsUpdate list" where
  "executeTokenDataRequests agg routingPlan =
     (let providerRequests = addPriorityProviders agg routingPlan (groupByProvider routingPlan);
          runs = map (runRequest getTokenData agg) providerRequests;
          executions = map fst runs;
          fallbacks = map (fallbacksFor getTokenData agg executions) routingPlan
      in (executions @ concat (map fst fallbacks),
          concat (map snd runs) @ concat (map snd fallbacks)))"

definition executeWalletDataRequests ::
  "'v DataAggregator \<Rightarrow> (string \<times> RoutingPlan) list
     \<Rightarrow> 'v ProviderExecution list \<times> metricsUpdate list" where
  "executeWalletDataRequests agg routingPlan =
     (let providerRequests = groupByProvider routingPlan;
          runs = map (runRequest getWalletData agg) providerRequests;
          executions = map fst runs;
          fallbacks = map (fallbacksFor getWalletData agg executions) routingPlan
      in (executions @ concat (map fst fallbacks),
          concat (map snd runs) @ concat (map snd fallbacks)))"

subsection \<open>Resolving the fields\<close>

text \<open>\<^verbatim>\<open>exec.success && exec.data && exec.data[field] !== undefined\<close> holds when
  \<open>fieldValue\<close> is some value, which is then \<^verbatim>\<open>exec.data[field]\<close>.\<close>

definition fieldValue :: "'v ProviderExecution \<Rightarrow> string \<Rightarrow> 'v option" where
  "fieldValue exec field =
     (if pe_success exec then (case pe_data exec of None \<Rightarrow> None | Some d \<Rightarrow> d field) else None)"

text \<open>\<^verbatim>\<open>getUniqueValues\<close>: a \<^verbatim>\<open>Map\<close> keyed by the JSON text of the value; the first
  value with a key stays, later ones are counted. It throws when
  \<^verbatim>\<open>JSON.stringify\<close> throws.\<close>

fun uniqueInto ::
  "'v stringify \<Rightarrow> (string \<times> 'v) list \<Rightarrow> (string \<times> 'v UniqueValue) list
     \<Rightarrow> string + (string \<times> 'v UniqueValue) list" where
  "uniqueInto js [] unique = Inr unique"
| "uniqueInto js ((p, v) # items) unique =
     (case js v of
        Inl msg \<Rightarrow> Inl msg
      | Inr key \<Rightarrow>
          (case map_of unique key of
             Some u \<Rightarrow> uniqueInto js items (AList.update key (u\<lparr>uv_count := uv_count u + 1\<rparr>) unique)
           | None \<Rightarrow>
               uniqueInto js items
                 (AList.update key \<lparr>uv_provider = p, uv_value = v, uv_count = 1\<rparr> unique)))"

definition getUniqueValues :: "'v stringify \<Rightarrow> (string \<times> 'v) list \<Rightarrow> string + 'v UniqueValue list" where
  "getUniqueValues js vals =
     (case uniqueInto js vals [] of Inl msg \<Rightarrow> Inl msg | Inr unique \<Rightarrow> Inr (map snd unique))"

text \<open>\<^verbatim>\<open>resolveBypriority\<close>: the first value, as the values are taken to be in
  priority order. It throws when there is no value.\<close>

definition resolveBypriority ::
  "string \<Rightarrow> (string \<times> 'v) list \<Rightarrow> 'v UniqueValue list \<Rightarrow> string + 'v FieldAggregationResult" where
  "resolveBypriority field vals uniqueValues =
     (case vals of
        [] \<Rightarrow> Inl (''No values available for field: '' @ field)
      | chosen # _ \<Rightarrow>
          Inr \<lparr>far_field = field, far_value = snd chosen, sources = [fst chosen],
               confidence = 0.8,
               conflicts = Some (filter (\<lambda>u. uv_value u \<noteq> snd chosen) uniqueValues)\<rparr>)"

definition resolveByNewest ::
  "string \<Rightarrow> (string \<times> 'v) list \<Rightarrow> 'v UniqueValue list \<Rightarrow> string + 'v FieldAggregationResult" where
  "resolveByNewest field vals uniqueValues = resolveBypriority field vals uniqueValues"

text \<open>\<^verbatim>\<open>resolveByMajority\<close>: \<^verbatim>\<open>reduce\<close> without an initial value starts from the first
  unique value and throws on an empty array.\<close>

definition resolveByMajority ::
  "'v stringify \<Rightarrow> string \<Rightarrow> (string \<times> 'v) list \<Rightarrow> 'v UniqueValue list
     \<Rightarrow> string + 'v FieldAggregationResult" where
  "resolveByMajority js field vals uniqueValues =
     (case uniqueValues of
        [] \<Rightarrow> Inl ''Reduce of empty array with no initial value''
      | u0 # us \<Rightarrow>
          (let majority = fold (\<lambda>current mx. if uv_count current > uv_count mx then current else mx) us u0
           in Inr \<lparr>far_field = field, far_value = uv_value majority,
                   sources = map fst (filter (\<lambda>pv. js (snd pv) = js (uv_value majority)) vals),
                   confidence = real (uv_count majority) / real (length vals),
                   conflicts = Some (filter (\<lambda>u. uv_value u \<noteq> uv_value majority) uniqueValues)\<rparr>))"

definition resolveFieldConflicts ::
  "'v stringify \<Rightarrow> string \<Rightarrow> (string \<times> 'v) list \<Rightarrow> AggregationStrategy
     \<Rightarrow> string + 'v FieldAggregationResult" where
  "resolveFieldConflicts js field vals strategy =
     (case getUniqueValues js vals of
        Inl msg \<Rightarrow> Inl msg
      | Inr uniqueValues \<Rightarrow>
          (case uniqueValues of
             [u] \<Rightarrow> Inr \<lparr>far_field = field, far_value = uv_value u,
                         sources = map (\<lambda>pv. orUnknown (fst pv)) vals,
                         confidence = 1, conflicts = None\<rparr>
           | _ \<Rightarrow>
               (case conflictResolution strategy of
                  cr_priority \<Rightarrow> resolveBypriority field vals uniqueValues
                | cr_newest \<Rightarrow> resolveByNewest field vals uniqueValues
                | cr_majority \<Rightarrow> resolveByMajority js field vals uniqueValues
                | cr_manual \<Rightarrow> resolveBypriority field vals uniqueValues)))"

text \<open>\<^verbatim>\<open>aggregateField\<close>: \<open>Inr None\<close> is the returned \<^verbatim>\<open>null\<close>.\<close>

definition aggregateField ::
  "'v stringify \<Rightarrow> string \<Rightarrow> 'v ProviderExecution list \<Rightarrow> AggregationStrategy
     \<Rightarrow> string + 'v FieldAggregationResult option" where
  "aggregateField js field executions strategy =
     (let vals = List.map_filter (\<lambda>exec. map_option (\<lambda>v. (pe_provider exec, v)) (fieldValue exec field))
                   executions
      in case vals of
           [] \<Rightarrow> Inr None
         | [pv] \<Rightarrow> Inr (Some \<lparr>far_field = field, far_value = snd pv,
                               sources = [orUnknown (fst pv)], confidence = 1,
                               conflicts = None\<rparr>)
         | _ \<Rightarrow> (case resolveFieldConflicts js field vals strategy of
                   Inl msg \<Rightarrow> Inl msg
                 | Inr res \<Rightarrow> Inr (Some res)))"

fun aggregateFieldResults ::
  "'v stringify \<Rightarrow> string list \<Rightarrow> 'v ProviderExecution list \<Rightarrow> AggregationStrategy
     \<Rightarrow> (string \<times> 'v FieldAggregationResult) list
     \<Rightarrow> string + (string \<times> 'v FieldAggregationResult) list" where
  "aggregateFieldResults js [] executions strategy results = Inr results"
| "aggregateFieldResults js (field # requestedFields) executions strategy results =
     (case aggregateField js field executions strategy of
        Inl msg \<Rightarrow> Inl msg
      | Inr None \<Rightarrow> aggregateFieldResults js requestedFields executions strategy results
      | Inr (Some fieldResults) \<Rightarrow>
          aggregateFieldResults js requestedFields executions strategy
            (AList.update field fieldResults results))"

subsection \<open>Assembling the response\<close>

text \<open>\<^verbatim>\<open>Array.from(new Set(xs))\<close>: the first occurrence of each element, in order.\<close>

definition uniq :: "'a list \<Rightarrow> 'a list" where
  "uniq xs = fold (\<lambda>x acc. if x \<in> set acc then acc else acc @ [x]) xs []"

text \<open>\<^verbatim>\<open>buildTokenData\<close> and \<^verbatim>\<open>buildWalletData\<close> are the same function: the resolved
  values, then \<^verbatim>\<open>dataSource\<close> and \<^verbatim>\<open>lastUpdated\<close>, assigned over whatever field of that
  name was resolved.\<close>

definition buildData ::
  "real \<Rightarrow> (string \<times> 'v FieldAggregationResult) list \<Rightarrow> (string \<times> 'v property) list" where
  "buildData now aggregationResults =
     (let obj = fold (\<lambda>(field, res) d. AList.update field (FieldValue (far_value res)) d)
                  aggregationResults [];
          allSources = concat (map (\<lambda>(field, res). sources res) aggregationResults)
      in AList.update ''lastUpdated'' (DateValue now)
           (AList.update ''dataSource'' (Sources (uniq allSources)) obj))"

definition buildResponseMetadata :: "'v ProviderExecution list \<Rightarrow> real \<Rightarrow> real \<Rightarrow> ResponseMetadata" where
  "buildResponseMetadata executions startTime now =
     \<lparr>md_dataSources = uniq (map pe_provider (filter pe_success executions)),
      md_cacheStatus = ''miss'',
      md_responseTime = max 1 (now - startTime),
      md_timestamp = now,
      md_providerHealth =
        Some (fold (\<lambda>e h. AList.update (pe_provider e) (pe_success e) h) executions [])\<rparr>"

text \<open>\<^verbatim>\<open>extractErrors\<close>: the executions that failed and carry an error, each as an
  entry that is recoverable.\<close>

definition extractErrors :: "'v ProviderExecution list \<Rightarrow> ErrorEntry list" where
  "extractErrors executions =
     List.map_filter
       (\<lambda>e. if \<not> pe_success e
            then map_option (\<lambda>msg. \<lparr>err_provider = pe_provider e, err_error = msg, recoverable = True\<rparr>)
                   (pe_error e)
            else None)
       executions"

text \<open>The response of the \<^verbatim>\<open>catch\<close> branch.\<close>

definition aggregatorFailure :: "string \<Rightarrow> real \<Rightarrow> real \<Rightarrow> 'v SDKResponse" where
  "aggregatorFailure msg startTime now =
     \<lparr>resp_data = [],
      resp_metadata = \<lparr>md_dataSources = [], md_cacheStatus = ''miss'', md_responseTime = now - startTime,
                       md_timestamp = now, md_providerHealth = None\<rparr>,
      resp_errors = [\<lparr>err_provider = ''aggregator'', err_error = msg, recoverable = False\<rparr>]\<rparr>"

subsection \<open>The two entry points\<close>

text \<open>
  \<open>startTime\<close> is \<^verbatim>\<open>Date.now()\<close> on entry and \<open>now\<close> the clock when the response is
  put together (and the date that \<^verbatim>\<open>updateMetrics\<close> records). All executions of a
  call are \<open>tokenExecutions\<close> (\<^verbatim>\<open>allExecutions\<close> in the source) and
  \<open>walletExecutions\<close>. The aggregator comes back with the router's metrics updated,
  also when the \<^verbatim>\<open>catch\<close> branch answers.
\<close>

definition tokenExecutions :: "'v DataAggregator \<Rightarrow> string list \<Rightarrow> 'v ProviderExecution list" where
  "tokenExecutions agg flds =
     (let routingPlan = planTokenDataRouting (fieldRouter agg) flds
      in fst (executeTokenDataRequests agg routingPlan)
           @ missingProviderExecutions (fieldRouter agg) flds routingPlan)"

definition walletExecutions :: "'v DataAggregator \<Rightarrow> string list \<Rightarrow> 'v ProviderExecution list" where
  "walletExecutions agg flds =
     fst (executeWalletDataRequests agg (planWalletDataRouting (fieldRouter agg) flds))"

definition applyMetrics :: "real \<Rightarrow> metricsUpdate list \<Rightarrow> 'v DataAggregator \<Rightarrow> 'v DataAggregator" where
  "applyMetrics now updates agg =
     agg\<lparr>fieldRouter := fold (\<lambda>(p, rt, ok) r. updateMetrics now p rt ok r) updates (fieldRouter agg)\<rparr>"

definition aggregateTokenData ::
  "'v stringify \<Rightarrow> real \<Rightarrow> real \<Rightarrow> 'v DataAggregator \<Rightarrow> TokenDataAggregationRequest
     \<Rightarrow> 'v SDKResponse \<times> 'v DataAggregator" where
  "aggregateTokenData js startTime now agg request =
     (let strategy = (case tok_strategy request of None \<Rightarrow> defaultStrategy | Some s \<Rightarrow> s);
          routingPlan = planTokenDataRouting (fieldRouter agg) (tok_fields request);
          allExecutions = tokenExecutions agg (tok_fields request);
          agg' = applyMetrics now (snd (executeTokenDataRequests agg routingPlan)) agg
      in case aggregateFieldResults js (tok_fields request) allExecutions strategy [] of
           Inl msg \<Rightarrow> (aggregatorFailure msg startTime now, agg')
         | Inr aggregationResults \<Rightarrow>
             (\<lparr>resp_data = buildData now aggregationResults,
               resp_metadata = buildResponseMetadata allExecutions startTime now,
               resp_errors = extractErrors allExecutions\<rparr>, agg'))"

definition aggregateWalletData ::
  "'v stringify \<Rightarrow> real \<Rightarrow> real \<Rightarrow> 'v DataAggregator \<Rightarrow> WalletDataAggregationRequest
     \<Rightarrow> 'v SDKResponse \<times> 'v DataAggregator" where
  "aggregateWalletData js startTime now agg request =
     (let strategy = (case wal_strategy request of None \<Rightarrow> defaultStrategy | Some s \<Rightarrow> s);
          routingPlan = planWalletDataRouting (fieldRouter agg) (wal_fields request);
          executions = walletExecutions agg (wal_fields request);
          agg' = applyMetrics now (snd (executeWalletDataRequests agg routingPlan)) agg
      in case aggregateFieldResults js (wal_fields request) executions strategy [] of
           Inl msg \<Rightarrow> (aggregatorFailure msg startTime now, agg')
         | Inr aggregationResults \<Rightarrow>
             (\<lparr>resp_data = buildData now aggregationResults,
               resp_metadata = buildResponseMetadata executions startTime now,
               resp_errors = extractErrors executions\<rparr>, agg'))"

subsection \<open>The providers of the aggregator's unit tests\<close>

text \<open>
  The fixture of \<^verbatim>\<open>data-aggregator.test.ts\<close>: a mock provider answers every call
  with its whole record for the asset or the address, at once. Values are written
  as their JSON text, which is also what \<^verbatim>\<open>JSON.stringify\<close> returns for them
  (\<open>jsonText\<close>).
\<close>

definition jsonText :: "string stringify" where
  "jsonText v = Inr v"

definition mockProvider ::
  "string \<Rightarrow> string list \<Rightarrow> string list \<Rightarrow> (string \<times> string) list \<Rightarrow> (string \<times> string) list
     \<Rightarrow> string DataProvider" where
  "mockProvider n tokenFields walletFields tokenRecord walletRecord =
     \<lparr>pname = n, tokenData = Some tokenFields, walletData = Some walletFields,
      getTokenData = (\<lambda>_. (Response True (Some (map_of tokenRecord)) None, 0)),
      getWalletData = (\<lambda>_. (Response True (Some (map_of walletRecord)) None, 0))\<rparr>"

definition blockfrostProvider :: "string DataProvider" where
  "blockfrostProvider =
     mockProvider ''blockfrost'' [''name'', ''symbol'', ''decimals'', ''totalSupply'']
       [''balance'', ''transactions'']
       [(''name'', ''Cardano''), (''symbol'', ''ADA''), (''decimals'', ''6''),
        (''totalSupply'', ''45000000000'')]
       [(''balance'', ''{lovelace:1000000000}''), (''transactions'', ''[tx123]'')]"

definition coingeckoProvider :: "string DataProvider" where
  "coingeckoProvider =
     mockProvider ''coingecko''
       [''price'', ''priceUsd'', ''marketCap'', ''volume24h'', ''priceChangePercentage24h''] []
       [(''price'', ''0.45''), (''priceUsd'', ''0.45''), (''marketCap'', ''15000000000''),
        (''volume24h'', ''500000000''), (''priceChangePercentage24h'', ''2.5'')]
       []"

definition taptoolsProvider :: "string DataProvider" where
  "taptoolsProvider =
     mockProvider ''taptools'' [''holders'', ''price''] [''portfolio'']
       [(''holders'', ''1500000''), (''price'', ''0.46'')]
       [(''portfolio'', ''{totalValueUsd:450}'')]"

definition testAggregator :: "string DataAggregator" where
  "testAggregator =
     newDataAggregator 0 [blockfrostProvider, coingeckoProvider, taptoolsProvider]
       [(''price'', [''coingecko'', ''taptools'']), (''name'', [''blockfrost'']),
        (''balance'', [''blockfrost'']), (''portfolio'', [''taptools''])]"

text \<open>A provider that answers \<^verbatim>\<open>{success: false}\<close> with no \<^verbatim>\<open>error\<close> property.\<close>

definition silentFailureProvider :: "string DataProvider" where
  "silentFailureProvider =
     \<lparr>pname = ''silent'', tokenData = Some [''price''], walletData = Some [''balance''],
      getTokenData = (\<lambda>_. (Response False None None, 0)),
      getWalletData = (\<lambda>_. (Response False None None, 0))\<rparr>"

text \<open>A mock provider made with \<^verbatim>\<open>shouldFail\<close>: every call is answered
  \<^verbatim>\<open>{success: false, error: new Error(name + ' provider error')}\<close>.\<close>

definition failingMockProvider :: "string \<Rightarrow> string list \<Rightarrow> string DataProvider" where
  "failingMockProvider n tokenFields =
     \<lparr>pname = n, tokenData = Some tokenFields, walletData = Some [],
      getTokenData = (\<lambda>_. (Response False None (Some (n @ '' provider error'')), 0)),
      getWalletData = (\<lambda>_. (Response False None (Some (n @ '' provider error'')), 0))\<rparr>"

subsection \<open>The error list that the specification describes\<close>

text \<open>
  The reading of the specification, to be compared with what the code produces:
  what the error list is to hold for one provider name asked in the parallel
  round, read off the registry and the provider's answer alone. A name that is not
  registered is reported as not found; a rejected call (a thrown error, the
  timeout) and an answer \<^verbatim>\<open>{success: false, error}\<close> are reported with their error;
  each entry is recoverable. A successful answer is not reported, and neither is
  an answer \<^verbatim>\<open>{success: false}\<close> without an error. \<open>unplannedFieldEntry\<close> is the
  entry for a requested field that has no routing plan.
\<close>

definition failureEntries ::
  "(string \<times> 'v DataProvider) list \<Rightarrow> ('v DataProvider \<Rightarrow> callsite \<Rightarrow> 'v reply \<times> real) \<Rightarrow> string
     \<Rightarrow> ErrorEntry list" where
  "failureEntries provs call p =
     (case map_of provs p of
        None \<Rightarrow> [\<lparr>err_provider = p, err_error = ''Provider '' @ p @ '' not found'',
                  recoverable = True\<rparr>]
      | Some provider \<Rightarrow>
          (case fst (call provider Primary) of
             Rejected msg \<Rightarrow> [\<lparr>err_provider = p, err_error = msg, recoverable = True\<rparr>]
           | Response ok d err \<Rightarrow>
               if ok then []
               else (case err of
                       None \<Rightarrow> []
                     | Some msg \<Rightarrow> [\<lparr>err_provider = p, err_error = msg, recoverable = True\<rparr>])))"

definition unplannedFieldEntry :: ErrorEntry where
  "unplannedFieldEntry =
     \<lparr>err_provider = ''unknown'', err_error = ''Provider unknown not found'', recoverable = True\<rparr>"

section \<open>Properties of the field router\<close>

text \<open>
  C10. \<^verbatim>\<open>updateMetrics(name, responseTime, success)\<close> for a provider name that has
  no metrics record leaves the whole router (metrics map, provider registry and
  field-priority map) as it was, for every response time and success flag; a
  provider that has just been unregistered is such a name.
\<close>

theorem updateMetrics_unknown_noop:
  "metrics r provider = None \<Longrightarrow>
     updateMetrics now provider responseTime ok r = r \<and>
     metrics (updateMetrics now provider responseTime ok r) = metrics r \<and>
     providers (updateMetrics now provider responseTime ok r) = providers r \<and>
     fieldPriorities (updateMetrics now provider responseTime ok r) = fieldPriorities r"
  by (simp add: updateMetrics_def)

text \<open>The witness is a router whose only provider has been unregistered again.\<close>

theorem updateMetrics_unknown_noop_witness:
  "metrics (unregisterProvider ''blockfrost''
      (newFieldRouter 0
        [\<lparr>pname = ''blockfrost'', tokenData = Some [''price''], walletData = None,
          getTokenData = (\<lambda>_. (Rejected ''down'' :: unit reply, 1)),
          getWalletData = (\<lambda>_. (Rejected ''down'', 1))\<rparr>] [])) ''blockfrost'' = None \<and>
   updateMetrics 5 ''blockfrost'' 120 True
     (unregisterProvider ''blockfrost''
      (newFieldRouter 0
        [\<lparr>pname = ''blockfrost'', tokenData = Some [''price''], walletData = None,
          getTokenData = (\<lambda>_. (Rejected ''down'' :: unit reply, 1)),
          getWalletData = (\<lambda>_. (Rejected ''down'', 1))\<rparr>] []))
   = unregisterProvider ''blockfrost''
      (newFieldRouter 0
        [\<lparr>pname = ''blockfrost'', tokenData = Some [''price''], walletData = None,
          getTokenData = (\<lambda>_. (Rejected ''down'' :: unit reply, 1)),
          getWalletData = (\<lambda>_. (Rejected ''down'', 1))\<rparr>] [])"
  using updateMetrics_unknown_noop
    [of "unregisterProvider ''blockfrost''
      (newFieldRouter 0
        [\<lparr>pname = ''blockfrost'', tokenData = Some [''price''], walletData = None,
          getTokenData = (\<lambda>_. (Rejected ''down'' :: unit reply, 1)),
          getWalletData = (\<lambda>_. (Rejected ''down'', 1))\<rparr>] [])" "''blockfrost''" 5 120 True]
  by (simp add: unregisterProvider_def)

text \<open>A name that was never registered, and a name that has been unregistered, have
  no metrics record.\<close>

lemma metrics_unregisterProvider: "metrics (unregisterProvider provider r) provider = None"
  by (simp add: unregisterProvider_def)

lemma metrics_fold_registerProvider:
  "metrics (fold (registerProvider now) ps r) n = None \<longleftrightarrow>
     metrics r n = None \<and> n \<notin> pname ` set ps"
  by (induction ps arbitrary: r) (auto simp: registerProvider_def split: option.splits)

lemma metrics_never_registered:
  "n \<notin> pname ` set ps \<Longrightarrow> metrics (newFieldRouter now ps prios) n = None"
proof -
  have frame: "metrics (fold (\<lambda>(f, l) r. r\<lparr>fieldPriorities := (fieldPriorities r)(f \<mapsto> l)\<rparr>) prios r) = metrics r"
    for r :: "'a FieldRouter"
    by (induction prios arbitrary: r) (auto simp: case_prod_unfold)
  assume "n \<notin> pname ` set ps"
  then show ?thesis
    by (simp add: newFieldRouter_def frame metrics_fold_registerProvider)
qed

section \<open>Properties of the retry executor and the circuit breaker\<close>

text \<open>
  C9. With \<^verbatim>\<open>baseDelay = 100\<close>, \<^verbatim>\<open>backoffMultiplier = 2\<close>, \<^verbatim>\<open>maxDelay\<close> at least 250
  and jitter enabled, for every value of the random draw in \<open>[0, 1)\<close> the delay
  computed after the first failed attempt (before the second attempt) lies in
  \<open>[75, 125]\<close> and the delay computed after the second failed attempt (before the
  third) lies in \<open>[150, 250]\<close>.
\<close>

theorem calculateDelay_bounds:
  assumes c: "baseDelay c = 100" "backoffMultiplier c = 2" "maxDelay c \<ge> 250" "jitter c"
    and r: "0 \<le> r1" "r1 < 1" "0 \<le> r2" "r2 < 1"
  shows "75 \<le> calculateDelay 1 c r1 \<and> calculateDelay 1 c r1 \<le> 125 \<and>
         150 \<le> calculateDelay 2 c r2 \<and> calculateDelay 2 c r2 \<le> 250"
proof -
  define x1 where "x1 = 100 + (r1 * 2 - 1) * (100 * 0.1) + 1 / 2"
  define x2 where "x2 = 200 + (r2 * 2 - 1) * (200 * 0.1) + 1 / 2"
  have d1: "calculateDelay 1 c r1 = max 0 \<lfloor>x1\<rfloor>"
    using c by (simp add: calculateDelay_def js_round_def Let_def x1_def diff_divide_distrib)
  have d2: "calculateDelay 2 c r2 = max 0 \<lfloor>x2\<rfloor>"
    using c by (simp add: calculateDelay_def js_round_def Let_def x2_def diff_divide_distrib)
  have "90 \<le> x1" "x1 < 111" "180 \<le> x2" "x2 < 221"
    using r by (simp_all add: x1_def x2_def)
  then have "90 \<le> \<lfloor>x1\<rfloor>" "\<lfloor>x1\<rfloor> \<le> 110" "180 \<le> \<lfloor>x2\<rfloor>" "\<lfloor>x2\<rfloor> \<le> 220"
    by (simp_all add: le_floor_iff floor_le_iff)
  then show ?thesis unfolding d1 d2 by linarith
qed

theorem calculateDelay_bounds_witness:
  "baseDelay \<lparr>maxAttempts = 3, baseDelay = 100, maxDelay = 250, backoffMultiplier = 2, jitter = True\<rparr> = 100 \<and>
   (0::real) \<le> 1 / 2 \<and> (1 / 2 :: real) < 1 \<and> (0::real) \<le> 1 / 4 \<and> (1 / 4 :: real) < 1 \<and>
   75 \<le> calculateDelay 1
      \<lparr>maxAttempts = 3, baseDelay = 100, maxDelay = 250, backoffMultiplier = 2, jitter = True\<rparr> (1 / 2) \<and>
   calculateDelay 2
      \<lparr>maxAttempts = 3, baseDelay = 100, maxDelay = 250, backoffMultiplier = 2, jitter = True\<rparr> (1 / 4) \<le> 250"
  using calculateDelay_bounds
    [of "\<lparr>maxAttempts = 3, baseDelay = 100, maxDelay = 250, backoffMultiplier = 2, jitter = True\<rparr>"
        "1 / 2" "1 / 4"]
  by simp

text \<open>The delays themselves, at the two ends of the draw and in the middle.\<close>

lemma calculateDelay_examples:
  "calculateDelay 1 \<lparr>maxAttempts = 3, baseDelay = 100, maxDelay = 250, backoffMultiplier = 2, jitter = True\<rparr> 0 = 90"
  "calculateDelay 1 \<lparr>maxAttempts = 3, baseDelay = 100, maxDelay = 250, backoffMultiplier = 2, jitter = True\<rparr> (1 / 2) = 100"
  "calculateDelay 2 \<lparr>maxAttempts = 3, baseDelay = 100, maxDelay = 250, backoffMultiplier = 2, jitter = True\<rparr> (999 / 1000) = 220"
  by (simp_all add: calculateDelay_def js_round_def Let_def)

text \<open>
  C2. A failure of the guarded call while the breaker is half-open is meant to send
  the breaker back to open. \<^verbatim>\<open>onFailure\<close> has no case for the half-open state: it
  opens the breaker only when the failure count reaches \<^verbatim>\<open>failureThreshold\<close>, and
  each success in the half-open state has lowered that count by one. With the
  default configuration (threshold 5), five failures open the breaker; after the
  recovery time two successes leave it half-open with three failures counted; the
  next failure counts four and the breaker stays half-open.
\<close>

theorem half_open_failure_stays_half_open:
  "state (executeAll
       [(0, Threw ''down''), (1, Threw ''down''), (2, Threw ''down''), (3, Threw ''down''),
        (4, Threw ''down''), (70000, Returned ()), (70001, Returned ())]
       defaultCircuitBreaker) = HalfOpen \<and>
   state (executeAll
       [(0, Threw ''down''), (1, Threw ''down''), (2, Threw ''down''), (3, Threw ''down''),
        (4, Threw ''down''), (70000, Returned ()), (70001, Returned ()), (70002, Threw ''down'')]
       defaultCircuitBreaker) = HalfOpen"
  by (simp add: execute_def onFailure_def onSuccess_def shouldAttemptRecovery_def
      defaultCircuitBreaker_def newCircuitBreaker_def)

text \<open>What the code does guarantee: a failure in the half-open state opens the
  breaker when it brings the count to the threshold, which is the case for the
  first trial call after the breaker has opened.\<close>

lemma half_open_failure_opens_at_threshold:
  "state b = HalfOpen \<Longrightarrow> failureThreshold b \<le> real (failures b) + 1 \<Longrightarrow>
     state (snd (execute now (Threw e) b)) = Open"
  by (simp add: execute_def onFailure_def Let_def)

lemma open_recovery_failure_reopens:
  "state b = Open \<Longrightarrow> shouldAttemptRecovery now b \<Longrightarrow> failureThreshold b \<le> real (failures b) \<Longrightarrow>
     state (snd (execute now (Threw e) b)) = Open"
  by (simp add: execute_def onFailure_def Let_def)

section \<open>Properties of the memory cache\<close>

subsection \<open>What the helpers leave alone\<close>

lemma emitEvent_frame [simp]:
  "cache (emitEvent ev k c) = cache c" "head (emitEvent ev k c) = head c"
  "tail (emitEvent ev k c) = tail c" "maxSize (emitEvent ev k c) = maxSize c"
  "defaultTtl (emitEvent ev k c) = defaultTtl c"
  "eventListeners (emitEvent ev k c) = eventListeners c"
  by (simp_all add: emitEvent_def)

lemma emitted_emitEvent [simp]:
  "emitted (emitEvent ev k c) = emitted c @ map (\<lambda>l. (l, ev, k)) (eventListeners c)"
  by (simp add: emitEvent_def)

lemma updateMemoryUsage_frame [simp]:
  "cache (updateMemoryUsage c) = cache c" "head (updateMemoryUsage c) = head c"
  "tail (updateMemoryUsage c) = tail c" "maxSize (updateMemoryUsage c) = maxSize c"
  "defaultTtl (updateMemoryUsage c) = defaultTtl c"
  "eventListeners (updateMemoryUsage c) = eventListeners c"
  "emitted (updateMemoryUsage c) = emitted c"
  by (simp_all add: updateMemoryUsage_def)

lemma incrementHits_frame [simp]:
  "cache (incrementHits c) = cache c" "head (incrementHits c) = head c"
  "tail (incrementHits c) = tail c" "maxSize (incrementHits c) = maxSize c"
  "defaultTtl (incrementHits c) = defaultTtl c"
  "eventListeners (incrementHits c) = eventListeners c"
  "emitted (incrementHits c) = emitted c"
  by (simp_all add: incrementHits_def)

lemma incrementMisses_frame [simp]:
  "cache (incrementMisses c) = cache c" "head (incrementMisses c) = head c"
  "tail (incrementMisses c) = tail c" "maxSize (incrementMisses c) = maxSize c"
  "defaultTtl (incrementMisses c) = defaultTtl c"
  "eventListeners (incrementMisses c) = eventListeners c"
  "emitted (incrementMisses c) = emitted c"
  by (simp_all add: incrementMisses_def)

lemma deleteNode_frame [simp]:
  "eventListeners (deleteNode k n c) = eventListeners c" "emitted (deleteNode k n c) = emitted c"
  "maxSize (deleteNode k n c) = maxSize c" "defaultTtl (deleteNode k n c) = defaultTtl c"
  by (simp_all add: deleteNode_def Let_def split: option.splits)

lemma addToHead_frame [simp]:
  "eventListeners (addToHead k c) = eventListeners c" "emitted (addToHead k c) = emitted c"
  "maxSize (addToHead k c) = maxSize c" "defaultTtl (addToHead k c) = defaultTtl c"
  by (simp_all add: addToHead_def Let_def split: option.splits)

lemma moveToHead_frame [simp]:
  "eventListeners (moveToHead k n c) = eventListeners c" "emitted (moveToHead k n c) = emitted c"
  "maxSize (moveToHead k n c) = maxSize c" "defaultTtl (moveToHead k n c) = defaultTtl c"
  by (simp_all add: moveToHead_def Let_def split: option.splits)

lemma entryAt_frame [simp]:
  "entryAt (emitEvent ev k' c) k = entryAt c k"
  "entryAt (updateMemoryUsage c) k = entryAt c k"
  "entryAt (incrementHits c) k = entryAt c k"
  "entryAt (incrementMisses c) k = entryAt c k"
  "entryAt (c\<lparr>stats := s\<rparr>) k = entryAt c k"
  by (simp_all add: entryAt_def)

text \<open>Relinking writes \<open>node_prev\<close> and \<open>node_next\<close> only: the entries stay.\<close>

lemma entryAt_addToHead [simp]: "entryAt (addToHead k' c) k = entryAt c k"
  by (simp add: addToHead_def Let_def entryAt_def map_of_map_entry split: option.splits)

lemma entryAt_moveToHead [simp]: "entryAt (moveToHead k' n c) k = entryAt c k"
  by (simp add: moveToHead_def Let_def entryAt_def addToHead_def map_of_map_entry
      split: option.splits)

lemma entryAt_cache_update [simp]:
  "entryAt (c\<lparr>cache := AList.update k n xs\<rparr>) k = Some (entry n)"
  by (simp add: entryAt_def update_conv')

subsection \<open>Reading back what was set\<close>

lemma entryAt_cache_set:
  "entryAt (cache_set now key v ttl_opt c) key = Some (freshEntry now v (timeToLive c ttl_opt))"
  by (simp add: cache_set_def Let_def freshEntry_def timeToLive_def split: option.splits)

lemma cache_get_result:
  "fst (cache_get now key c) =
     (case entryAt c key of
        None \<Rightarrow> None
      | Some e \<Rightarrow> if isExpired now e then None else Some (ce_value e))"
  by (simp add: cache_get_def entryAt_def Let_def split: option.splits)

text \<open>
  C7. An entry stored with \<^verbatim>\<open>set(key, value, 0)\<close> expires at the very timestamp of
  the \<^verbatim>\<open>set\<close>, and \<^verbatim>\<open>isExpired\<close> compares with a strict \<^verbatim>\<open>>\<close>: a \<^verbatim>\<open>get(key)\<close> that
  follows the \<^verbatim>\<open>set\<close> returns \<^verbatim>\<open>null\<close> when the clock has moved past the timestamp
  of the \<^verbatim>\<open>set\<close>, and the stored value when it has not (the same millisecond). This
  holds from every state of the cache.
\<close>

theorem zero_ttl_expires_after_the_set:
  "fst (cache_get t' key (cache_set t key v (Some 0) c)) = (if t < t' then None else Some v)"
  by (simp add: cache_get_result entryAt_cache_set isExpired_def freshEntry_def timeToLive_def)

theorem zero_ttl_expires_after_the_set_witness:
  "fst (cache_get 1001 ''zero-ttl'' (cache_set 1000 ''zero-ttl'' ''value'' (Some 0)
         (newMemoryCache 300 1000 True length))) = None"
  using zero_ttl_expires_after_the_set
    [of 1001 "''zero-ttl''" 1000 "''value''" "newMemoryCache 300 1000 True length"]
  by simp

text \<open>In the millisecond of the \<^verbatim>\<open>set\<close> the entry is not expired yet: the value is
  returned.\<close>

theorem zero_ttl_same_millisecond_counterexample:
  "fst (cache_get 1000 ''zero-ttl'' (cache_set 1000 ''zero-ttl'' ''value'' (Some 0)
         (newMemoryCache 300 1000 True length))) = Some ''value''"
  by (simp add: cache_get_def cache_set_def newMemoryCache_def isExpired_def
      moveToHead_def addToHead_def deleteNode_def evictLRU_def Let_def)

subsection \<open>Events\<close>

text \<open>
  C5. Every operation that changes the store is to tell every listener. \<^verbatim>\<open>has\<close>
  deletes an expired entry it finds and calls no listener, where \<^verbatim>\<open>get\<close> and
  \<^verbatim>\<open>cleanupExpired\<close> emit \<^verbatim>\<open>expired\<close> for the same deletion. With one listener
  (number 7), \<^verbatim>\<open>set('k', 'v', 1)\<close> at time 0 and a look at time 2000: \<^verbatim>\<open>has\<close> answers
  false, the store is empty, and the listener has seen the \<^verbatim>\<open>set\<close> only; after
  \<^verbatim>\<open>get\<close> instead it has seen \<^verbatim>\<open>expired\<close> too.
\<close>

theorem has_deletes_expired_entry_silently:
  "fst (cache_has 2000 ''k'' (cache_set 0 ''k'' ''v'' (Some 1)
          (addEventListener 7 (newMemoryCache 300 1000 True length)))) = False \<and>
   cache (snd (cache_has 2000 ''k'' (cache_set 0 ''k'' ''v'' (Some 1)
          (addEventListener 7 (newMemoryCache 300 1000 True length))))) = [] \<and>
   emitted (snd (cache_has 2000 ''k'' (cache_set 0 ''k'' ''v'' (Some 1)
          (addEventListener 7 (newMemoryCache 300 1000 True length))))) = [(7, ev_set, ''k'')] \<and>
   emitted (snd (cache_get 2000 ''k'' (cache_set 0 ''k'' ''v'' (Some 1)
          (addEventListener 7 (newMemoryCache 300 1000 True length)))))
     = [(7, ev_set, ''k''), (7, ev_expired, ''k'')]"
  by (simp add: cache_has_def cache_get_def cache_set_def newMemoryCache_def
      addEventListener_def isExpired_def moveToHead_def addToHead_def deleteNode_def
      evictLRU_def Let_def)

text \<open>\<^verbatim>\<open>has\<close> never calls a listener; the other operations call every listener, in
  the order of registration, with the event of the operation.\<close>

lemma cache_has_emits_nothing: "emitted (snd (cache_has now key c)) = emitted c"
  by (simp add: cache_has_def split: option.splits)

lemma cache_delete_emits:
  "fst (cache_delete key c) \<Longrightarrow>
     emitted (snd (cache_delete key c)) = emitted c @ map (\<lambda>l. (l, ev_delete, key)) (eventListeners c)"
  by (simp add: cache_delete_def split: option.splits)

lemma cache_clear_emits:
  "emitted (cache_clear c) = emitted c @ map (\<lambda>l. (l, ev_clear, [])) (eventListeners c)"
  by (simp add: cache_clear_def)

lemma evictLRU_frame [simp]:
  "eventListeners (evictLRU c) = eventListeners c"
  by (simp add: evictLRU_def split: option.splits)

lemma cache_set_emits:
  "\<exists>before. emitted (cache_set now key v ttl_opt c)
     = before @ map (\<lambda>l. (l, ev_set, key)) (eventListeners c)"
  by (simp add: cache_set_def Let_def split: option.splits)

lemma cache_get_expired_emits:
  "map_of (cache c) key = Some n \<Longrightarrow> isExpired now (entry n) \<Longrightarrow>
     emitted (snd (cache_get now key c)) = emitted c @ map (\<lambda>l. (l, ev_expired, key)) (eventListeners c)"
  by (simp add: cache_get_def)

lemma evictLRU_emits:
  "tail c = Some k \<Longrightarrow> map_of (cache c) k = Some n \<Longrightarrow>
     emitted (evictLRU c) = emitted c @ map (\<lambda>l. (l, ev_evicted, k)) (eventListeners c)"
  by (simp add: evictLRU_def)

subsection \<open>Least recently used\<close>

text \<open>
  C6. An empty cache with \<^verbatim>\<open>maxSize = 3\<close>; four distinct keys; \<^verbatim>\<open>set(k1)\<close>, \<^verbatim>\<open>set(k2)\<close>,
  \<^verbatim>\<open>set(k3)\<close>, \<^verbatim>\<open>get(k1)\<close>, \<^verbatim>\<open>set(k4)\<close>, with no entry expiring on the way (the entry
  of \<open>k1\<close> is alive at its \<^verbatim>\<open>get\<close>, and the entries that remain are alive at the time
  \<open>t6\<close> of the final look). Then the \<^verbatim>\<open>get\<close> returns the value of \<open>k1\<close>, the fourth
  \<^verbatim>\<open>set\<close> evicts \<open>k2\<close> and tells every listener so, the keys stored at the end are
  \<open>k1\<close>, \<open>k3\<close> and \<open>k4\<close>, and \<^verbatim>\<open>has\<close> answers false for \<open>k2\<close> and true for the
  other three.
\<close>

theorem lru_evicts_second_key:
  assumes d: "k1 \<noteq> k2" "k1 \<noteq> k3" "k1 \<noteq> k4" "k2 \<noteq> k3" "k2 \<noteq> k4" "k3 \<noteq> k4"
    and e: "cache c0 = []" "head c0 = None" "tail c0 = None" "maxSize c0 = 3"
    and t: "t4 \<le> t1 + timeToLive c0 ttl1"
    and t6: "t6 \<le> t1 + timeToLive c0 ttl1" "t6 \<le> t3 + timeToLive c0 ttl3"
            "t6 \<le> t5 + timeToLive c0 ttl4"
    and c3: "c3 = cache_set t3 k3 v3 ttl3 (cache_set t2 k2 v2 ttl2 (cache_set t1 k1 v1 ttl1 c0))"
    and c5: "c5 = cache_set t5 k4 v4 ttl4 (snd (cache_get t4 k1 c3))"
  shows "fst (cache_get t4 k1 c3) = Some v1 \<and>
         getKeys c3 = [k1, k2, k3] \<and>
         getKeys c5 = [k1, k3, k4] \<and>
         emitted c5 = emitted (snd (cache_get t4 k1 c3))
            @ map (\<lambda>l. (l, ev_evicted, k2)) (eventListeners c0)
            @ map (\<lambda>l. (l, ev_set, k4)) (eventListeners c0) \<and>
         fst (cache_has t6 k2 c5) = False \<and>
         fst (cache_has t6 k1 c5) = True \<and>
         fst (cache_has t6 k3 c5) = True \<and>
         fst (cache_has t6 k4 c5) = True"
proof -
  define c1 where "c1 = cache_set t1 k1 v1 ttl1 c0"
  define c2 where "c2 = cache_set t2 k2 v2 ttl2 c1"
  define c4 where "c4 = snd (cache_get t4 k1 c3)"
  define m1 where "m1 = timeToLive c0 ttl1"
  define m2 where "m2 = timeToLive c0 ttl2"
  define m3 where "m3 = timeToLive c0 ttl3"
  define m4 where "m4 = timeToLive c0 ttl4"
  note link = moveToHead_def addToHead_def deleteNode_def evictLRU_def
  have c3': "c3 = cache_set t3 k3 v3 ttl3 c2" and c5': "c5 = cache_set t5 k4 v4 ttl4 c4"
    by (simp_all add: c3 c5 c2_def c1_def c4_def)
  have s1: "cache c1 = [(k1, \<lparr>entry = freshEntry t1 v1 m1, node_prev = None, node_next = None\<rparr>)]"
       "head c1 = Some k1" "tail c1 = Some k1" "maxSize c1 = 3" "defaultTtl c1 = defaultTtl c0"
       "eventListeners c1 = eventListeners c0"
    using e by (simp_all add: c1_def cache_set_def link Let_def freshEntry_def m1_def timeToLive_def)
  have s2: "cache c2 = [(k1, \<lparr>entry = freshEntry t1 v1 m1, node_prev = Some k2, node_next = None\<rparr>),
                        (k2, \<lparr>entry = freshEntry t2 v2 m2, node_prev = None, node_next = Some k1\<rparr>)]"
       "head c2 = Some k2" "tail c2 = Some k1" "maxSize c2 = 3" "defaultTtl c2 = defaultTtl c0"
       "eventListeners c2 = eventListeners c0"
    using d s1
    by (simp_all add: c2_def cache_set_def link Let_def freshEntry_def m2_def timeToLive_def
        cong: option.case_cong)
  have s3: "cache c3 = [(k1, \<lparr>entry = freshEntry t1 v1 m1, node_prev = Some k2, node_next = None\<rparr>),
                        (k2, \<lparr>entry = freshEntry t2 v2 m2, node_prev = Some k3, node_next = Some k1\<rparr>),
                        (k3, \<lparr>entry = freshEntry t3 v3 m3, node_prev = None, node_next = Some k2\<rparr>)]"
       "head c3 = Some k3" "tail c3 = Some k1" "maxSize c3 = 3" "defaultTtl c3 = defaultTtl c0"
       "eventListeners c3 = eventListeners c0"
    using d s2
    by (simp_all add: c3' cache_set_def link Let_def freshEntry_def m3_def timeToLive_def
        cong: option.case_cong)
  have g: "fst (cache_get t4 k1 c3) = Some v1"
    using d s3 t by (simp add: cache_get_def isExpired_def freshEntry_def m1_def Let_def)
  have s4: "cache c4 = [(k1, \<lparr>entry = (freshEntry t1 v1 m1)\<lparr>accessCount := 1, lastAccessed := t4\<rparr>,
                              node_prev = None, node_next = Some k3\<rparr>),
                        (k2, \<lparr>entry = freshEntry t2 v2 m2, node_prev = Some k3, node_next = None\<rparr>),
                        (k3, \<lparr>entry = freshEntry t3 v3 m3, node_prev = Some k1, node_next = Some k2\<rparr>)]"
       "head c4 = Some k1" "tail c4 = Some k2" "maxSize c4 = 3" "defaultTtl c4 = defaultTtl c0"
       "eventListeners c4 = eventListeners c0"
    using d s3 t
    by (simp_all add: c4_def cache_get_def link Let_def freshEntry_def isExpired_def m1_def)
  have s5: "cache c5 = [(k1, \<lparr>entry = (freshEntry t1 v1 m1)\<lparr>accessCount := 1, lastAccessed := t4\<rparr>,
                              node_prev = Some k4, node_next = Some k3\<rparr>),
                        (k3, \<lparr>entry = freshEntry t3 v3 m3, node_prev = Some k1, node_next = None\<rparr>),
                        (k4, \<lparr>entry = freshEntry t5 v4 m4, node_prev = None, node_next = Some k1\<rparr>)]"
    using d s4
    by (simp_all add: c5' cache_set_def link Let_def freshEntry_def m4_def timeToLive_def
        cong: option.case_cong)
  have ev: "emitted c5 = emitted c4 @ map (\<lambda>l. (l, ev_evicted, k2)) (eventListeners c0)
              @ map (\<lambda>l. (l, ev_set, k4)) (eventListeners c0)"
    using d s4 by (simp add: c5' cache_set_def evictLRU_def Let_def)
  have h: "fst (cache_has t6 k2 c5) = False" "fst (cache_has t6 k1 c5) = True"
          "fst (cache_has t6 k3 c5) = True" "fst (cache_has t6 k4 c5) = True"
    using d s5 t6
    by (simp_all add: cache_has_def isExpired_def freshEntry_def m1_def m3_def m4_def)
  show ?thesis
    using g s3(1) s5 ev h by (simp add: getKeys_def c4_def)
qed
text \<open>The witness is the scenario of the cache's unit test, with one listener.\<close>

theorem lru_evicts_second_key_witness:
  "maxSize (addEventListener 7 (newMemoryCache 300 3 True length :: string MemoryCache)) = 3 \<and>
   fst (cache_get 4 ''key1''
     (cache_set 3 ''key3'' ''value3'' None (cache_set 2 ''key2'' ''value2'' None
       (cache_set 1 ''key1'' ''value1'' None
         (addEventListener 7 (newMemoryCache 300 3 True length)))))) = Some ''value1'' \<and>
   getKeys (cache_set 5 ''key4'' ''value4'' None (snd (cache_get 4 ''key1''
     (cache_set 3 ''key3'' ''value3'' None (cache_set 2 ''key2'' ''value2'' None
       (cache_set 1 ''key1'' ''value1'' None
         (addEventListener 7 (newMemoryCache 300 3 True length)))))))) = [''key1'', ''key3'', ''key4''] \<and>
   fst (cache_has 6 ''key2'' (cache_set 5 ''key4'' ''value4'' None (snd (cache_get 4 ''key1''
     (cache_set 3 ''key3'' ''value3'' None (cache_set 2 ''key2'' ''value2'' None
       (cache_set 1 ''key1'' ''value1'' None
         (addEventListener 7 (newMemoryCache 300 3 True length))))))))) = False"
proof -
  define c0 :: "string MemoryCache" where "c0 = addEventListener 7 (newMemoryCache 300 3 True length)"
  have e: "cache c0 = []" "head c0 = None" "tail c0 = None" "maxSize c0 = 3"
    "timeToLive c0 None = 300000"
    by (simp_all add: c0_def newMemoryCache_def addEventListener_def timeToLive_def)
  have "fst (cache_get 4 ''key1''
          (cache_set 3 ''key3'' ''value3'' None (cache_set 2 ''key2'' ''value2'' None
            (cache_set 1 ''key1'' ''value1'' None c0)))) = Some ''value1'' \<and>
        getKeys (cache_set 3 ''key3'' ''value3'' None (cache_set 2 ''key2'' ''value2'' None
            (cache_set 1 ''key1'' ''value1'' None c0))) = [''key1'', ''key2'', ''key3''] \<and>
        getKeys (cache_set 5 ''key4'' ''value4'' None (snd (cache_get 4 ''key1''
          (cache_set 3 ''key3'' ''value3'' None (cache_set 2 ''key2'' ''value2'' None
            (cache_set 1 ''key1'' ''value1'' None c0)))))) = [''key1'', ''key3'', ''key4''] \<and>
        emitted (cache_set 5 ''key4'' ''value4'' None (snd (cache_get 4 ''key1''
          (cache_set 3 ''key3'' ''value3'' None (cache_set 2 ''key2'' ''value2'' None
            (cache_set 1 ''key1'' ''value1'' None c0))))))
          = emitted (snd (cache_get 4 ''key1''
              (cache_set 3 ''key3'' ''value3'' None (cache_set 2 ''key2'' ''value2'' None
                (cache_set 1 ''key1'' ''value1'' None c0)))))
            @ map (\<lambda>l. (l, ev_evicted, ''key2'')) (eventListeners c0)
            @ map (\<lambda>l. (l, ev_set, ''key4'')) (eventListeners c0) \<and>
        fst (cache_has 6 ''key2'' (cache_set 5 ''key4'' ''value4'' None (snd (cache_get 4 ''key1''
          (cache_set 3 ''key3'' ''value3'' None (cache_set 2 ''key2'' ''value2'' None
            (cache_set 1 ''key1'' ''value1'' None c0))))))) = False \<and>
        fst (cache_has 6 ''key1'' (cache_set 5 ''key4'' ''value4'' None (snd (cache_get 4 ''key1''
          (cache_set 3 ''key3'' ''value3'' None (cache_set 2 ''key2'' ''value2'' None
            (cache_set 1 ''key1'' ''value1'' None c0))))))) = True \<and>
        fst (cache_has 6 ''key3'' (cache_set 5 ''key4'' ''value4'' None (snd (cache_get 4 ''key1''
          (cache_set 3 ''key3'' ''value3'' None (cache_set 2 ''key2'' ''value2'' None
            (cache_set 1 ''key1'' ''value1'' None c0))))))) = True \<and>
        fst (cache_has 6 ''key4'' (cache_set 5 ''key4'' ''value4'' None (snd (cache_get 4 ''key1''
          (cache_set 3 ''key3'' ''value3'' None (cache_set 2 ''key2'' ''value2'' None
            (cache_set 1 ''key1'' ''value1'' None c0))))))) = True"
    by (rule lru_evicts_second_key) (simp_all add: e)
  then show ?thesis
    using e(4) by (simp add: c0_def)
qed

section \<open>Properties of routing plans\<close>

lemma map_of_plan_fold:
  "map_of (fold (\<lambda>field plan. case crp field of
                                 Some routingPlan \<Rightarrow> AList.update field routingPlan plan
                               | None \<Rightarrow> plan) flds acc) f =
     (if f \<in> set flds then (case crp f of Some rp \<Rightarrow> Some rp | None \<Rightarrow> map_of acc f)
      else map_of acc f)"
  by (induction flds arbitrary: acc) (auto simp: update_conv' split: option.splits)

lemma map_of_planTokenDataRouting:
  "map_of (planTokenDataRouting r flds) f =
     (if f \<in> set flds
      then createRoutingPlan r f (getProvidersForTokenField r f) getRoutingStrategy
      else None)"
  unfolding planTokenDataRouting_def map_of_plan_fold by (simp split: option.splits)

lemma getProvidersForTokenField_empty:
  "getProvidersForTokenField r field = [] \<longleftrightarrow>
     list_all (\<lambda>(n, p). \<not> declaresTokenField p field) (providers r)"
  by (auto simp: getProvidersForTokenField_def filter_empty_conv list_all_iff)

lemma getProvidersForTokenField_subset:
  "set (getProvidersForTokenField r field) \<subseteq> fst ` set (providers r)"
  by (auto simp: getProvidersForTokenField_def)

lemma getProviderByPriority_member:
  "availableProviders \<noteq> [] \<Longrightarrow>
     getProviderByPriority r field availableProviders \<in> set availableProviders"
  by (auto simp: getProviderByPriority_def firstOrEmpty_def find_Some_iff
      split: option.splits list.splits)

text \<open>With the \<^verbatim>\<open>priority\<close> strategy the optimal provider is one of the candidates, so
  it is a name of the registry; it is missing only when there is no candidate, or
  when the name it would be is the empty string.\<close>

lemma getOptimalProvider_priority:
  assumes "[] \<notin> set availableProviders"
  shows "(getOptimalProvider r field availableProviders priority = None \<or>
          getOptimalProvider r field availableProviders priority = Some [])
         \<longleftrightarrow> availableProviders = []"
proof (cases availableProviders)
  case Nil
  then show ?thesis by (simp add: getOptimalProvider_def)
next
  case (Cons p ps)
  show ?thesis
  proof (cases ps)
    case Nil
    with Cons assms show ?thesis by (simp add: getOptimalProvider_def)
  next
    case (Cons q qs)
    have "getProviderByPriority r field availableProviders \<in> set availableProviders"
      using \<open>availableProviders = p # ps\<close> by (intro getProviderByPriority_member) simp
    with assms have "getProviderByPriority r field availableProviders \<noteq> []" by metis
    with Cons \<open>availableProviders = p # ps\<close> show ?thesis
      by (simp add: getOptimalProvider_def)
  qed
qed

lemma createRoutingPlan_no_candidates:
  "createRoutingPlan r field [] strategy =
     (case fieldPriorities r field of
        Some (firstPriority # rest) \<Rightarrow>
          if firstPriority \<noteq> []
          then Some \<lparr>rp_field = field, rp_provider = firstPriority, fallbackProviders = rest,
                     est_responseTime = 1000, est_successRate = 0, est_cost = Some 0\<rparr>
          else None
      | _ \<Rightarrow> None)"
  by (simp add: createRoutingPlan_def getOptimalProvider_def)

lemma createRoutingPlan_candidates:
  assumes "[] \<notin> set availableProviders" "availableProviders \<noteq> []"
  shows "createRoutingPlan r field availableProviders priority \<noteq> None"
proof -
  have "getOptimalProvider r field availableProviders priority \<noteq> None"
       "getOptimalProvider r field availableProviders priority \<noteq> Some []"
    using getOptimalProvider_priority [OF assms(1), of r field] assms(2) by auto
  then obtain y where "getOptimalProvider r field availableProviders priority = Some y" "y \<noteq> []"
    by (cases "getOptimalProvider r field availableProviders priority") auto
  then show ?thesis
    by (simp add: createRoutingPlan_def Let_def)
qed

text \<open>
  C8. For a router whose registered names are non-empty strings and a field passed
  to \<^verbatim>\<open>planTokenDataRouting\<close>: the field is absent from the plan exactly when no
  registered provider declares it among its token fields and the field has no
  priority list that starts with a provider name (no list is configured, or the
  list is empty, or its first entry is the empty string). When no registered
  provider declares the field and its priority list starts with a provider name,
  the plan of the field names that first entry as primary, the rest of the list as
  fallbacks, and estimates the success rate as 0.
\<close>

theorem routing_plan_absent_iff:
  assumes names: "[] \<notin> fst ` set (providers r)" and requested: "field \<in> set flds"
  shows "((map_of (planTokenDataRouting r flds) field = None) =
            (list_all (\<lambda>(n, p). \<not> declaresTokenField p field) (providers r) \<and>
             (case fieldPriorities r field of
                None \<Rightarrow> True
              | Some [] \<Rightarrow> True
              | Some (first # rest) \<Rightarrow> first = []))) \<and>
         (\<forall>first rest.
            list_all (\<lambda>(n, p). \<not> declaresTokenField p field) (providers r) \<and>
            fieldPriorities r field = Some (first # rest) \<and> first \<noteq> [] \<longrightarrow>
            map_of (planTokenDataRouting r flds) field =
              Some \<lparr>rp_field = field, rp_provider = first, fallbackProviders = rest,
                    est_responseTime = 1000, est_successRate = 0, est_cost = Some 0\<rparr>)"
proof -
  let ?avail = "getProvidersForTokenField r field"
  have ne: "[] \<notin> set ?avail"
    using names getProvidersForTokenField_subset [of r field] by blast
  have plan: "map_of (planTokenDataRouting r flds) field =
                createRoutingPlan r field ?avail priority"
    using requested by (simp add: map_of_planTokenDataRouting getRoutingStrategy_def)
  show ?thesis
  proof (cases "?avail = []")
    case True
    then have none: "list_all (\<lambda>(n, p). \<not> declaresTokenField p field) (providers r)"
      by (simp add: getProvidersForTokenField_empty)
    show ?thesis
      unfolding plan True createRoutingPlan_no_candidates using none
      by (auto split: option.splits list.splits)
  next
    case False
    then have some: "\<not> list_all (\<lambda>(n, p). \<not> declaresTokenField p field) (providers r)"
      by (simp add: getProvidersForTokenField_empty)
    have "createRoutingPlan r field ?avail priority \<noteq> None"
      using ne False by (rule createRoutingPlan_candidates)
    then show ?thesis
      unfolding plan using some by simp
  qed
qed

theorem routing_plan_absent_iff_witness:
  "map_of (planTokenDataRouting
             (newFieldRouter 0 ([] :: unit DataProvider list) [(''price'', [''coingecko'', ''taptools''])])
             [''name'', ''price'']) ''price''
     = Some \<lparr>rp_field = ''price'', rp_provider = ''coingecko'', fallbackProviders = [''taptools''],
             est_responseTime = 1000, est_successRate = 0, est_cost = Some 0\<rparr> \<and>
   map_of (planTokenDataRouting
             (newFieldRouter 0 ([] :: unit DataProvider list) [(''price'', [''coingecko'', ''taptools''])])
             [''name'', ''price'']) ''name'' = None"
  using routing_plan_absent_iff
    [of "newFieldRouter 0 ([] :: unit DataProvider list) [(''price'', [''coingecko'', ''taptools''])]"
        "''price''" "[''name'', ''price'']"]
    routing_plan_absent_iff
    [of "newFieldRouter 0 ([] :: unit DataProvider list) [(''price'', [''coingecko'', ''taptools''])]"
        "''name''" "[''name'', ''price'']"]
  by (simp add: newFieldRouter_def)

text \<open>Not every configured priority list counts: a field whose configured list is
  empty has no plan, although no provider declares it and a list is configured.\<close>

theorem routing_plan_empty_priority_list_counterexample:
  "getProvidersForTokenField
      (newFieldRouter 0 ([] :: unit DataProvider list) [(''price'', [])]) ''price'' = [] \<and>
   fieldPriorities (newFieldRouter 0 ([] :: unit DataProvider list) [(''price'', [])]) ''price''
     = Some [] \<and>
   map_of (planTokenDataRouting
             (newFieldRouter 0 ([] :: unit DataProvider list) [(''price'', [])]) [''price''])
          ''price'' = None"
  by (simp add: newFieldRouter_def planTokenDataRouting_def getProvidersForTokenField_def
      createRoutingPlan_def getOptimalProvider_def getRoutingStrategy_def)

section \<open>Properties of the data aggregator\<close>

subsection \<open>Evaluating the model\<close>

lemmas router_eval = newDataAggregator_def newFieldRouter_def registerProvider_def
  planTokenDataRouting_def planWalletDataRouting_def createRoutingPlan_def getOptimalProvider_def
  getProviderByPriority_def getProvidersForTokenField_def getProvidersForWalletField_def
  declaresTokenField_def declaresWalletField_def getRoutingStrategy_def firstOrEmpty_def
  sortBy_def compareFallback_def getFieldPriorities_def

lemmas exec_eval = tokenExecutions_def walletExecutions_def executeTokenDataRequests_def
  executeWalletDataRequests_def groupByProvider_def addPriorityProviders_def priorityStep_def
  pushField_def
  pushFieldOnce_def runRequest_def fallbacksFor_def missingProviderExecutions_def orUnknown_def

lemmas resolve_eval = aggregateField_def fieldValue_def resolveFieldConflicts_def
  getUniqueValues_def resolveBypriority_def resolveByNewest_def resolveByMajority_def
  List.map_filter_def defaultStrategy_def

lemmas build_eval = aggregateTokenData_def aggregateWalletData_def buildData_def
  buildResponseMetadata_def extractErrors_def uniq_def aggregatorFailure_def applyMetrics_def

lemmas fixture_eval = testAggregator_def blockfrostProvider_def coingeckoProvider_def
  taptoolsProvider_def mockProvider_def jsonText_def silentFailureProvider_def
  failingMockProvider_def

subsection \<open>The error list\<close>

lemma extractErrors_comprehension:
  "extractErrors executions =
     [\<lparr>err_provider = pe_provider e, err_error = the (pe_error e), recoverable = True\<rparr>.
        e \<leftarrow> executions, \<not> pe_success e \<and> pe_error e \<noteq> None]"
  by (induction executions) (auto simp: extractErrors_def List.map_filter_def)

lemma extractErrors_complete:
  "e \<in> set executions \<Longrightarrow> \<not> pe_success e \<Longrightarrow> pe_error e = Some msg \<Longrightarrow>
     \<lparr>err_provider = pe_provider e, err_error = msg, recoverable = True\<rparr> \<in> set (extractErrors executions)"
  by (force simp: extractErrors_comprehension)

lemma extractErrors_sound:
  "x \<in> set (extractErrors executions) \<Longrightarrow>
     recoverable x \<and>
     (\<exists>e \<in> set executions. \<not> pe_success e \<and> pe_error e = Some (err_error x) \<and>
                             pe_provider e = err_provider x)"
  by (auto simp: extractErrors_comprehension)

text \<open>A provider that answers \<^verbatim>\<open>{success: false}\<close> without an \<^verbatim>\<open>error\<close>: its
  execution failed and the error list is empty.\<close>

theorem failed_execution_without_error_counterexample:
  "map pe_provider (tokenExecutions (newDataAggregator 0 [silentFailureProvider] []) [''price''])
     = [''silent''] \<and>
   map pe_success (tokenExecutions (newDataAggregator 0 [silentFailureProvider] []) [''price''])
     = [False] \<and>
   resp_errors (fst (aggregateTokenData jsonText 0 50
       (newDataAggregator 0 [silentFailureProvider] [])
       \<lparr>assetUnit = ''lovelace'', tok_fields = [''price''], tok_strategy = None\<rparr>)) = []"
  by (simp add: router_eval fixture_eval exec_eval resolve_eval build_eval Let_def)

text \<open>The \<^verbatim>\<open>catch\<close> branch is reached: when \<^verbatim>\<open>JSON.stringify\<close> throws on the values
  of a field that two providers supply, the response is the aggregator's failure.\<close>

lemma aggregator_failure_example:
  "fst (aggregateTokenData (\<lambda>v. Inl ''Converting circular structure to JSON'') 0 50 testAggregator
       \<lparr>assetUnit = ''lovelace'', tok_fields = [''price''], tok_strategy = None\<rparr>)
     = \<lparr>resp_data = [],
        resp_metadata = \<lparr>md_dataSources = [], md_cacheStatus = ''miss'', md_responseTime = 50,
                         md_timestamp = 50, md_providerHealth = None\<rparr>,
        resp_errors = [\<lparr>err_provider = ''aggregator'',
                        err_error = ''Converting circular structure to JSON'',
                        recoverable = False\<rparr>]\<rparr>"
  by (simp add: router_eval fixture_eval exec_eval resolve_eval build_eval Let_def)
subsection \<open>Failures of planned providers reach the error list\<close>

lemma dom_pushField: "dom (map_of (pushField p f reqs)) = insert p (dom (map_of reqs))"
  by (auto simp: pushField_def update_conv' split: option.splits)

lemma dom_pushFieldOnce: "dom (map_of (pushFieldOnce p f reqs)) = insert p (dom (map_of reqs))"
  by (auto simp: pushFieldOnce_def update_conv' split: option.splits if_splits)

lemma dom_group_fold:
  "dom (map_of (fold (\<lambda>fp. pushField (rp_provider (snd fp)) (fst fp)) routingPlan acc))
     = dom (map_of acc) \<union> (\<lambda>fp. rp_provider (snd fp)) ` set routingPlan"
proof (induction routingPlan arbitrary: acc)
  case Nil
  then show ?case by simp
next
  case (Cons fp routingPlan)
  show ?case
    by (simp only: fold_Cons o_apply Cons dom_pushField list.set image_insert) blast
qed

lemma dom_groupByProvider:
  "dom (map_of (groupByProvider routingPlan)) = (\<lambda>fp. rp_provider (snd fp)) ` set routingPlan"
  by (simp add: groupByProvider_def case_prod_unfold dom_group_fold)

lemma dom_priorityStep:
  "dom (map_of reqs) \<subseteq> dom (map_of (priorityStep provs primary field providerName reqs))"
  by (simp add: priorityStep_def dom_pushFieldOnce subset_insertI split: option.splits)

lemma dom_priority_inner:
  "dom (map_of reqs) \<subseteq> dom (map_of (fold (priorityStep provs primary field) prios reqs))"
proof (induction prios arbitrary: reqs)
  case Nil
  then show ?case by simp
next
  case (Cons a prios)
  have "dom (map_of reqs) \<subseteq> dom (map_of (priorityStep provs primary field a reqs))"
    by (rule dom_priorityStep)
  also have "\<dots> \<subseteq> dom (map_of (fold (priorityStep provs primary field) prios
                                 (priorityStep provs primary field a reqs)))"
    by (rule Cons)
  finally show ?case by simp
qed

lemma dom_addPriorityProviders:
  "dom (map_of reqs) \<subseteq> dom (map_of (addPriorityProviders agg routingPlan reqs))"
  unfolding addPriorityProviders_def
proof (induction routingPlan arbitrary: reqs)
  case Nil
  then show ?case by simp
next
  case (Cons fp routingPlan)
  obtain field plan where fp: "fp = (field, plan)" by (cases fp)
  define step where "step = (\<lambda>reqs. case getFieldPriorities (fieldRouter agg) field of
               None \<Rightarrow> reqs
             | Some fieldPrios \<Rightarrow>
                 if length fieldPrios > 1
                 then fold (priorityStep (agg_providers agg) (rp_provider plan) field) fieldPrios reqs
                 else reqs)"
  have "dom (map_of reqs) \<subseteq> dom (map_of (step reqs))"
    by (simp add: step_def dom_priority_inner split: option.splits)
  also have "\<dots> \<subseteq> dom (map_of (fold (\<lambda>(field, plan) reqs.
             case getFieldPriorities (fieldRouter agg) field of
               None \<Rightarrow> reqs
             | Some fieldPrios \<Rightarrow>
                 if length fieldPrios > 1
                 then fold (priorityStep (agg_providers agg) (rp_provider plan) field) fieldPrios reqs
                 else reqs) routingPlan (step reqs)))"
    by (rule Cons)
  finally show ?case
    by (simp add: fp step_def)
qed

text \<open>Every primary provider of the plan is asked in the parallel round, and what
  the call does is what the execution records: a rejection (a thrown error or the
  timeout) or a failure response becomes a failed execution with that error.\<close>

lemma runRequest_provider [simp]: "pe_provider (fst (runRequest call agg (p, fs))) = p"
  by (simp add: runRequest_def split: option.splits prod.splits reply.splits)

lemma primary_in_token_round:
  assumes "(field, plan) \<in> set routingPlan"
  shows "\<exists>fs. runRequest getTokenData agg (rp_provider plan, fs)
                 \<in> set (map (runRequest getTokenData agg)
                          (addPriorityProviders agg routingPlan (groupByProvider routingPlan)))"
proof -
  have "rp_provider (snd (field, plan)) \<in> (\<lambda>fp. rp_provider (snd fp)) ` set routingPlan"
    using assms by (rule imageI)
  then have "rp_provider plan \<in> dom (map_of (groupByProvider routingPlan))"
    by (simp add: dom_groupByProvider)
  then have "rp_provider plan
               \<in> dom (map_of (addPriorityProviders agg routingPlan (groupByProvider routingPlan)))"
    using dom_addPriorityProviders by blast
  then obtain fs where "(rp_provider plan, fs)
               \<in> set (addPriorityProviders agg routingPlan (groupByProvider routingPlan))"
    by (auto dest: map_of_SomeD)
  then show ?thesis by auto
qed

lemma rejected_primary_is_reported:
  assumes plan: "(field, plan) \<in> set (planTokenDataRouting (fieldRouter agg) flds)"
    and reg: "map_of (agg_providers agg) (rp_provider plan) = Some provider"
    and rej: "fst (getTokenData provider Primary) = Rejected msg"
  shows "\<lparr>err_provider = rp_provider plan, err_error = msg, recoverable = True\<rparr>
           \<in> set (extractErrors (tokenExecutions agg flds))"
proof -
  obtain fs where "runRequest getTokenData agg (rp_provider plan, fs)
      \<in> set (map (runRequest getTokenData agg)
               (addPriorityProviders agg (planTokenDataRouting (fieldRouter agg) flds)
                  (groupByProvider (planTokenDataRouting (fieldRouter agg) flds))))"
    using primary_in_token_round [OF plan] by blast
  then have mem: "fst (runRequest getTokenData agg (rp_provider plan, fs))
                    \<in> set (tokenExecutions agg flds)"
    by (force simp: tokenExecutions_def executeTokenDataRequests_def Let_def)
  obtain rt where "getTokenData provider Primary = (Rejected msg, rt)"
    using rej by (cases "getTokenData provider Primary") auto
  then have "\<not> pe_success (fst (runRequest getTokenData agg (rp_provider plan, fs)))"
       "pe_error (fst (runRequest getTokenData agg (rp_provider plan, fs))) = Some msg"
    using reg by (simp_all add: runRequest_def)
  from extractErrors_complete [OF mem this] show ?thesis by simp
qed

subsection \<open>Fields that the plan does not hold\<close>

lemma createRoutingPlan_None:
  "createRoutingPlan r field availableProviders strategy = None \<Longrightarrow>
     (case getFieldPriorities r field of Some (p # _) \<Rightarrow> orUnknown p | _ \<Rightarrow> ''unknown'') = ''unknown''"
  by (auto simp: createRoutingPlan_def getFieldPriorities_def orUnknown_def Let_def
      split: if_splits option.splits list.splits)

text \<open>In \<^verbatim>\<open>aggregateTokenData\<close> a requested field without a plan does get its
  failed execution, and so its error entry; the provider it names is always
  \<^verbatim>\<open>unknown\<close>, since a field whose priority list starts with a name has a plan.\<close>

lemma token_field_without_plan_is_reported:
  assumes "field \<in> set flds"
    and "map_of (planTokenDataRouting (fieldRouter agg) flds) field = None"
  shows "\<lparr>err_provider = ''unknown'', err_error = ''Provider unknown not found'',
           recoverable = True\<rparr> \<in> set (extractErrors (tokenExecutions agg flds))"
proof -
  let ?r = "fieldRouter agg"
  have "createRoutingPlan ?r field (getProvidersForTokenField ?r field) getRoutingStrategy = None"
    using assms by (simp add: map_of_planTokenDataRouting)
  then have mp: "(case getFieldPriorities ?r field of Some (p # _) \<Rightarrow> orUnknown p | _ \<Rightarrow> ''unknown'')
                   = ''unknown''"
    by (rule createRoutingPlan_None)
  have "\<lparr>pe_provider = ''unknown'', pe_success = False, pe_data = None,
          pe_error = Some ''Provider unknown not found'', pe_responseTime = 1,
          fieldsProvided = []\<rparr>
          \<in> set (missingProviderExecutions ?r flds (planTokenDataRouting ?r flds))"
    using assms mp by (force simp: missingProviderExecutions_def Let_def)
  then have "\<lparr>pe_provider = ''unknown'', pe_success = False, pe_data = None,
          pe_error = Some ''Provider unknown not found'', pe_responseTime = 1,
          fieldsProvided = []\<rparr> \<in> set (tokenExecutions agg flds)"
    by (simp add: tokenExecutions_def Let_def)
  from extractErrors_complete [OF this] show ?thesis by simp
qed

text \<open>
  C1. Every requested field that the routing plan does not hold is to get a failed
  execution of its own, so that the field has data or an error in the response.
  \<^verbatim>\<open>aggregateTokenData\<close> does this; \<^verbatim>\<open>aggregateWalletData\<close> has no such step. With the
  providers of the unit tests, no provider declares the wallet field \<^verbatim>\<open>staking\<close>
  and no priority list names it: the plan is empty, nothing is executed, and the
  response has neither the field nor an error. The token field \<^verbatim>\<open>liquidity\<close> is in
  the same position and gets its error entry.
\<close>

theorem wallet_field_without_plan_is_dropped:
  "planWalletDataRouting (fieldRouter testAggregator) [''staking''] = [] \<and>
   walletExecutions testAggregator [''staking''] = [] \<and>
   fst (aggregateWalletData jsonText 0 50 testAggregator
          \<lparr>address = ''addr1test'', wal_fields = [''staking''], wal_strategy = None\<rparr>)
     = \<lparr>resp_data = [(''dataSource'', Sources []), (''lastUpdated'', DateValue 50)],
        resp_metadata = \<lparr>md_dataSources = [], md_cacheStatus = ''miss'', md_responseTime = 50,
                         md_timestamp = 50, md_providerHealth = Some []\<rparr>,
        resp_errors = []\<rparr> \<and>
   planTokenDataRouting (fieldRouter testAggregator) [''liquidity''] = [] \<and>
   resp_errors (fst (aggregateTokenData jsonText 0 50 testAggregator
          \<lparr>assetUnit = ''lovelace'', tok_fields = [''liquidity''], tok_strategy = None\<rparr>))
     = [\<lparr>err_provider = ''unknown'', err_error = ''Provider unknown not found'',
         recoverable = True\<rparr>]"
  by (simp add: router_eval fixture_eval exec_eval resolve_eval build_eval Let_def)

subsection \<open>Conflicts under the priority resolution\<close>

text \<open>
  C3. Under the \<^verbatim>\<open>priority\<close> resolution the value of the provider that ranks higher
  in the field's priority list is to win. \<^verbatim>\<open>resolveBypriority\<close> takes the first
  value, and the values come in the order of \<^verbatim>\<open>providerRequests\<close>, which is the
  order in which the providers were first needed by any requested field. With the
  providers of the unit tests (\<^verbatim>\<open>price\<close>: coingecko before taptools; coingecko
  answers 0.45, taptools 0.46) the request for \<^verbatim>\<open>['holders', 'price']\<close> asks taptools
  first, for \<^verbatim>\<open>holders\<close>: the resolved price is 0.46, from taptools, and the value
  of coingecko is listed as the conflict. The request for \<^verbatim>\<open>['price']\<close> alone
  resolves to 0.45.
\<close>

theorem priority_conflict_follows_request_order:
  "map pe_provider (tokenExecutions testAggregator [''holders'', ''price''])
     = [''taptools'', ''coingecko''] \<and>
   aggregateField jsonText ''price'' (tokenExecutions testAggregator [''holders'', ''price''])
       \<lparr>combineStrategy = cs_first, conflictResolution = cr_priority\<rparr>
     = Inr (Some \<lparr>far_field = ''price'', far_value = ''0.46'', sources = [''taptools''],
                  confidence = 0.8,
                  conflicts = Some [\<lparr>uv_provider = ''coingecko'', uv_value = ''0.45'',
                                     uv_count = 1\<rparr>]\<rparr>) \<and>
   map_of (resp_data (fst (aggregateTokenData jsonText 0 50 testAggregator
       \<lparr>assetUnit = ''lovelace'', tok_fields = [''holders'', ''price''],
        tok_strategy = Some \<lparr>combineStrategy = cs_first, conflictResolution = cr_priority\<rparr>\<rparr>)))
     ''price'' = Some (FieldValue ''0.46'') \<and>
   map_of (resp_data (fst (aggregateTokenData jsonText 0 50 testAggregator
       \<lparr>assetUnit = ''lovelace'', tok_fields = [''price''],
        tok_strategy = Some \<lparr>combineStrategy = cs_first, conflictResolution = cr_priority\<rparr>\<rparr>)))
     ''price'' = Some (FieldValue ''0.45'')"
  by (simp add: router_eval fixture_eval exec_eval resolve_eval build_eval Let_def)

text \<open>What \<^verbatim>\<open>resolveBypriority\<close> does guarantee: with two providers whose values for
  the field have different JSON texts, the value of the one executed first wins
  with confidence 0.8, and the other value is the one conflict.\<close>

lemma two_values_first_wins:
  assumes "js v1 = Inr s1" "js v2 = Inr s2" "s1 \<noteq> s2"
  shows "resolveFieldConflicts js field [(p1, v1), (p2, v2)]
           \<lparr>combineStrategy = c, conflictResolution = cr_priority\<rparr>
         = Inr \<lparr>far_field = field, far_value = v1, sources = [p1], confidence = 0.8,
                conflicts = Some [\<lparr>uv_provider = p2, uv_value = v2, uv_count = 1\<rparr>]\<rparr>"
proof -
  have "v1 \<noteq> v2" using assms by auto
  then show ?thesis
    using assms by (simp add: resolveFieldConflicts_def getUniqueValues_def resolveBypriority_def)
qed

subsection \<open>From the providers' answers to the error list\<close>

lemma extractErrors_append:
  "extractErrors (xs @ ys) = extractErrors xs @ extractErrors ys"
  by (simp add: extractErrors_comprehension)

lemma extractErrors_all_success:
  "(\<And>e. e \<in> set es \<Longrightarrow> pe_success e) \<Longrightarrow> extractErrors es = []"
  by (induction es) (simp_all add: extractErrors_comprehension)

text \<open>The fallback loop records successes only: a fallback that answers with a
  failure, or whose call is rejected, leaves no execution behind.\<close>

lemma tryFallbacks_success:
  "e \<in> set (fst (tryFallbacks call agg executions field i fbs)) \<Longrightarrow> pe_success e"
proof (induction fbs arbitrary: i)
  case Nil
  then show ?case by simp
next
  case (Cons fallbackProvider fbs)
  have ih: "e \<in> set (fst (tryFallbacks call agg executions field (i + 1) fbs)) \<Longrightarrow> pe_success e"
    by (rule Cons.IH)
  show ?case
    using Cons.prems ih
    by (auto split: option.splits prod.splits reply.splits if_splits)
qed

lemma fallbacksFor_success:
  "e \<in> set (fst (fallbacksFor call agg executions fp)) \<Longrightarrow> pe_success e"
  by (auto simp: fallbacksFor_def split: prod.splits option.splits if_splits
      dest: tryFallbacks_success)

lemma extractErrors_fallbacks:
  "extractErrors (concat (map (fst \<circ> fallbacksFor call agg executions) routingPlan)) = []"
  by (rule extractErrors_all_success) (auto dest: fallbacksFor_success)

text \<open>One request of the parallel round: the execution that \<^verbatim>\<open>extractErrors\<close> reads
  carries exactly what the provider answered.\<close>

lemma extractErrors_runRequest:
  "extractErrors [fst (runRequest call agg (p, fs))] = failureEntries (agg_providers agg) call p"
  by (cases "map_of (agg_providers agg) p")
    (auto simp: runRequest_def failureEntries_def extractErrors_comprehension
      split: prod.splits reply.splits option.splits)

lemma extractErrors_runs:
  "extractErrors (map (fst \<circ> runRequest call agg) reqs)
     = concat (map (\<lambda>req. failureEntries (agg_providers agg) call (fst req)) reqs)"
proof (induction reqs)
  case Nil
  then show ?case by (simp add: extractErrors_comprehension)
next
  case (Cons req reqs)
  obtain p fs where req: "req = (p, fs)" by (cases req)
  have "extractErrors (map (fst \<circ> runRequest call agg) (req # reqs))
          = extractErrors ([fst (runRequest call agg (p, fs))]
                            @ map (fst \<circ> runRequest call agg) reqs)"
    by (simp add: req)
  also have "\<dots> = failureEntries (agg_providers agg) call p
                    @ concat (map (\<lambda>req. failureEntries (agg_providers agg) call (fst req)) reqs)"
    by (simp only: extractErrors_append extractErrors_runRequest Cons)
  finally show ?case by (simp add: req comp_def)
qed

lemma extractErrors_executeTokenDataRequests:
  "extractErrors (fst (executeTokenDataRequests agg routingPlan))
     = concat (map (\<lambda>req. failureEntries (agg_providers agg) getTokenData (fst req))
                 (addPriorityProviders agg routingPlan (groupByProvider routingPlan)))"
  by (simp add: executeTokenDataRequests_def Let_def extractErrors_append extractErrors_runs
      extractErrors_fallbacks)

lemma extractErrors_executeWalletDataRequests:
  "extractErrors (fst (executeWalletDataRequests agg routingPlan))
     = concat (map (\<lambda>req. failureEntries (agg_providers agg) getWalletData (fst req))
                 (groupByProvider routingPlan))"
  by (simp add: executeWalletDataRequests_def Let_def extractErrors_append extractErrors_runs
      extractErrors_fallbacks)

lemma extractErrors_missing_part:
  assumes "set fs \<subseteq> set flds"
  shows "extractErrors (missingProviderExecutions r fs (planTokenDataRouting r flds))
           = concat (map (\<lambda>field. if map_of (planTokenDataRouting r flds) field = None
                                   then [unplannedFieldEntry] else []) fs)"
  using assms
proof (induction fs)
  case Nil
  then show ?case by (simp add: missingProviderExecutions_def extractErrors_comprehension)
next
  case (Cons f fs)
  have split: "missingProviderExecutions r (f # fs) (planTokenDataRouting r flds)
                 = missingProviderExecutions r [f] (planTokenDataRouting r flds)
                   @ missingProviderExecutions r fs (planTokenDataRouting r flds)"
    by (simp add: missingProviderExecutions_def)
  have one: "extractErrors (missingProviderExecutions r [f] (planTokenDataRouting r flds))
               = (if map_of (planTokenDataRouting r flds) f = None then [unplannedFieldEntry] else [])"
  proof (cases "map_of (planTokenDataRouting r flds) f = None")
    case True
    moreover have "f \<in> set flds" using Cons.prems by simp
    ultimately have "createRoutingPlan r f (getProvidersForTokenField r f) getRoutingStrategy = None"
      by (simp add: map_of_planTokenDataRouting)
    then have "(case getFieldPriorities r f of Some (p # _) \<Rightarrow> orUnknown p | _ \<Rightarrow> ''unknown'')
                 = ''unknown''"
      by (rule createRoutingPlan_None)
    with True show ?thesis
      by (simp add: missingProviderExecutions_def Let_def extractErrors_comprehension
          unplannedFieldEntry_def)
  next
    case False
    then obtain y where "map_of (planTokenDataRouting r flds) f = Some y"
      by auto
    then show ?thesis
      by (simp add: missingProviderExecutions_def extractErrors_comprehension)
  qed
  show ?case
    using Cons by (simp add: split extractErrors_append one del: map_of_eq_None_iff)
qed

text \<open>Every primary provider of the plan is among the names asked.\<close>

lemma primary_is_requested_token:
  assumes "(field, plan) \<in> set routingPlan"
  shows "rp_provider plan \<in> fst ` set (addPriorityProviders agg routingPlan (groupByProvider routingPlan))"
proof -
  have "rp_provider (snd (field, plan)) \<in> (\<lambda>fp. rp_provider (snd fp)) ` set routingPlan"
    using assms by (rule imageI)
  then have "rp_provider plan \<in> dom (map_of (groupByProvider routingPlan))"
    by (simp add: dom_groupByProvider)
  then have "rp_provider plan
               \<in> dom (map_of (addPriorityProviders agg routingPlan (groupByProvider routingPlan)))"
    using dom_addPriorityProviders by blast
  then show ?thesis by (simp add: dom_map_of_conv_image_fst)
qed

lemma primary_is_requested_wallet:
  assumes "(field, plan) \<in> set routingPlan"
  shows "rp_provider plan \<in> fst ` set (groupByProvider routingPlan)"
proof -
  have "rp_provider (snd (field, plan)) \<in> (\<lambda>fp. rp_provider (snd fp)) ` set routingPlan"
    using assms by (rule imageI)
  then have "rp_provider plan \<in> dom (map_of (groupByProvider routingPlan))"
    by (simp add: dom_groupByProvider)
  then show ?thesis by (simp add: dom_map_of_conv_image_fst)
qed

lemma requested_entries_listed:
  "p \<in> fst ` set reqs \<Longrightarrow>
     set (failureEntries provs call p)
       \<subseteq> set (concat (map (\<lambda>req. failureEntries provs call (fst req)) reqs))"
  by auto

text \<open>
  C4. \<^verbatim>\<open>aggregateTokenData\<close> and \<^verbatim>\<open>aggregateWalletData\<close> always return a response. When
  the aggregation machinery throws (here: \<^verbatim>\<open>JSON.stringify\<close> in the conflict
  resolution), the response has an empty data record and exactly one error entry,
  of provider \<^verbatim>\<open>aggregator\<close>, not recoverable. Otherwise the error list is read off
  the providers' answers: in the order of the parallel round, each provider asked
  contributes one recoverable entry when it is not registered, when its call is
  rejected (a thrown error, the timeout), or when it answers \<^verbatim>\<open>success: false\<close> with
  an error object, and nothing when it succeeds or fails without an error object;
  \<^verbatim>\<open>aggregateTokenData\<close> then adds one entry for each requested field without a
  plan. Fallback calls contribute no entry, whatever they answer. Every primary
  provider of the plan is among the providers asked, so its failure is in the
  list.
\<close>

theorem aggregate_error_list:
  fixes agg :: "'v DataAggregator"
    and req :: TokenDataAggregationRequest and wreq :: WalletDataAggregationRequest
  defines "plan \<equiv> planTokenDataRouting (fieldRouter agg) (tok_fields req)"
    and "wplan \<equiv> planWalletDataRouting (fieldRouter agg) (wal_fields wreq)"
  defines "asked \<equiv> map fst (addPriorityProviders agg plan (groupByProvider plan))"
    and "wasked \<equiv> map fst (groupByProvider wplan)"
  shows
   "(case aggregateFieldResults js (tok_fields req) (tokenExecutions agg (tok_fields req))
           (case tok_strategy req of None \<Rightarrow> defaultStrategy | Some s \<Rightarrow> s) [] of
       Inl msg \<Rightarrow>
         resp_data (fst (aggregateTokenData js startTime now agg req)) = [] \<and>
         resp_errors (fst (aggregateTokenData js startTime now agg req)) =
           [\<lparr>err_provider = ''aggregator'', err_error = msg, recoverable = False\<rparr>]
     | Inr results \<Rightarrow>
         resp_errors (fst (aggregateTokenData js startTime now agg req)) =
           concat (map (failureEntries (agg_providers agg) getTokenData) asked)
           @ concat (map (\<lambda>field. if map_of plan field = None then [unplannedFieldEntry] else [])
                       (tok_fields req))) \<and>
    (case aggregateFieldResults js (wal_fields wreq) (walletExecutions agg (wal_fields wreq))
           (case wal_strategy wreq of None \<Rightarrow> defaultStrategy | Some s \<Rightarrow> s) [] of
       Inl msg \<Rightarrow>
         resp_data (fst (aggregateWalletData js startTime now agg wreq)) = [] \<and>
         resp_errors (fst (aggregateWalletData js startTime now agg wreq)) =
           [\<lparr>err_provider = ''aggregator'', err_error = msg, recoverable = False\<rparr>]
     | Inr results \<Rightarrow>
         resp_errors (fst (aggregateWalletData js startTime now agg wreq)) =
           concat (map (failureEntries (agg_providers agg) getWalletData) wasked)) \<and>
    (\<forall>fp \<in> set plan. rp_provider (snd fp) \<in> set asked) \<and>
    (\<forall>fp \<in> set wplan. rp_provider (snd fp) \<in> set wasked)"
proof -
  have tok: "extractErrors (tokenExecutions agg (tok_fields req))
      = concat (map (failureEntries (agg_providers agg) getTokenData) asked)
        @ concat (map (\<lambda>field. if map_of plan field = None then [unplannedFieldEntry] else [])
                    (tok_fields req))"
    by (simp add: tokenExecutions_def Let_def extractErrors_append
        extractErrors_executeTokenDataRequests extractErrors_missing_part
        plan_def asked_def comp_def del: map_of_eq_None_iff)
  have wal: "extractErrors (walletExecutions agg (wal_fields wreq))
      = concat (map (failureEntries (agg_providers agg) getWalletData) wasked)"
    by (simp add: walletExecutions_def extractErrors_executeWalletDataRequests
        wplan_def wasked_def comp_def)
  have p1: "\<forall>fp \<in> set plan. rp_provider (snd fp) \<in> set asked"
    using primary_is_requested_token [of _ _ plan agg] by (auto simp: asked_def)
  have p2: "\<forall>fp \<in> set wplan. rp_provider (snd fp) \<in> set wasked"
    using primary_is_requested_wallet [of _ _ wplan] by (auto simp: wasked_def)
  have t: "case aggregateFieldResults js (tok_fields req) (tokenExecutions agg (tok_fields req))
           (case tok_strategy req of None \<Rightarrow> defaultStrategy | Some s \<Rightarrow> s) [] of
       Inl msg \<Rightarrow>
         resp_data (fst (aggregateTokenData js startTime now agg req)) = [] \<and>
         resp_errors (fst (aggregateTokenData js startTime now agg req)) =
           [\<lparr>err_provider = ''aggregator'', err_error = msg, recoverable = False\<rparr>]
     | Inr results \<Rightarrow>
         resp_errors (fst (aggregateTokenData js startTime now agg req)) =
           extractErrors (tokenExecutions agg (tok_fields req))"
    by (simp add: aggregateTokenData_def Let_def aggregatorFailure_def split: sum.splits)
  have w: "case aggregateFieldResults js (wal_fields wreq) (walletExecutions agg (wal_fields wreq))
           (case wal_strategy wreq of None \<Rightarrow> defaultStrategy | Some s \<Rightarrow> s) [] of
       Inl msg \<Rightarrow>
         resp_data (fst (aggregateWalletData js startTime now agg wreq)) = [] \<and>
         resp_errors (fst (aggregateWalletData js startTime now agg wreq)) =
           [\<lparr>err_provider = ''aggregator'', err_error = msg, recoverable = False\<rparr>]
     | Inr results \<Rightarrow>
         resp_errors (fst (aggregateWalletData js startTime now agg wreq)) =
           extractErrors (walletExecutions agg (wal_fields wreq))"
    by (simp add: aggregateWalletData_def Let_def aggregatorFailure_def split: sum.splits)
  show ?thesis
    using t w p1 p2 unfolding tok wal by (intro conjI)
qed

text \<open>The witness is the test \<^verbatim>\<open>should return error when all providers fail\<close>: one
  provider, which answers every call with a failure and its error.\<close>

theorem aggregate_error_list_witness:
  "resp_errors (fst (aggregateTokenData jsonText 0 50
       (newDataAggregator 0 [failingMockProvider ''failing'' [''price'']] [(''price'', [''failing''])])
       \<lparr>assetUnit = ''lovelace'', tok_fields = [''price''], tok_strategy = None\<rparr>))
     = [\<lparr>err_provider = ''failing'', err_error = ''failing provider error'', recoverable = True\<rparr>]"
proof -
  define agg where "agg = newDataAggregator 0 [failingMockProvider ''failing'' [''price'']]
                            [(''price'', [''failing''])]"
  have results: "aggregateFieldResults jsonText [''price''] (tokenExecutions agg [''price''])
                   defaultStrategy [] = Inr []"
    by (simp add: agg_def router_eval fixture_eval exec_eval resolve_eval Let_def)
  have plan: "planTokenDataRouting (fieldRouter agg) [''price'']
                = [(''price'', \<lparr>rp_field = ''price'', rp_provider = ''failing'',
                                fallbackProviders = [], est_responseTime = 1000,
                                est_successRate = 1, est_cost = None\<rparr>)]"
    by (simp add: agg_def router_eval fixture_eval)
  have asked: "addPriorityProviders agg
                 [(''price'', \<lparr>rp_field = ''price'', rp_provider = ''failing'',
                                fallbackProviders = [], est_responseTime = 1000,
                                est_successRate = 1, est_cost = None\<rparr>)]
                 (groupByProvider
                    [(''price'', \<lparr>rp_field = ''price'', rp_provider = ''failing'',
                                   fallbackProviders = [], est_responseTime = 1000,
                                   est_successRate = 1, est_cost = None\<rparr>)])
                = [(''failing'', [''price''])]"
    by (simp add: agg_def exec_eval router_eval fixture_eval)
  have entries: "failureEntries (agg_providers agg) getTokenData ''failing''
                   = [\<lparr>err_provider = ''failing'', err_error = ''failing provider error'',
                       recoverable = True\<rparr>]"
    by (simp add: agg_def failureEntries_def newDataAggregator_def failingMockProvider_def)
  have "resp_errors (fst (aggregateTokenData jsonText 0 50 agg
           \<lparr>assetUnit = ''lovelace'', tok_fields = [''price''], tok_strategy = None\<rparr>))
         = [\<lparr>err_provider = ''failing'', err_error = ''failing provider error'',
             recoverable = True\<rparr>]"
    using aggregate_error_list
      [where js = jsonText and startTime = 0 and now = 50 and agg = agg
         and req = "\<lparr>assetUnit = ''lovelace'', tok_fields = [''price''], tok_strategy = None\<rparr>"
         and wreq = "\<lparr>address = ''addr1test'', wal_fields = [], wal_strategy = None\<rparr>",
       THEN conjunct1]
    by (simp add: results asked entries plan del: aggregateFieldResults.simps)
  then show ?thesis by (simp add: agg_def)
qed

text \<open>A fallback that fails is called and leaves no trace in the response. Two
  failing providers declare \<^verbatim>\<open>price\<close> and no priority list is configured: the
  first is the primary, the second its fallback. The fallback is called (its
  metrics count one request), and the error list names the primary only.\<close>

lemma failed_fallback_is_not_reported:
  "map (\<lambda>fp. (rp_provider (snd fp), fallbackProviders (snd fp)))
       (planTokenDataRouting
          (fieldRouter (newDataAggregator 0 [failingMockProvider ''primary'' [''price''],
                                             failingMockProvider ''backup'' [''price'']] []))
          [''price'']) = [(''primary'', [''backup''])] \<and>
   resp_errors (fst (aggregateTokenData jsonText 0 50
       (newDataAggregator 0 [failingMockProvider ''primary'' [''price''],
                             failingMockProvider ''backup'' [''price'']] [])
       \<lparr>assetUnit = ''lovelace'', tok_fields = [''price''], tok_strategy = None\<rparr>))
     = [\<lparr>err_provider = ''primary'', err_error = ''primary provider error'', recoverable = True\<rparr>] \<and>
   map_option totalRequests
     (metrics (fieldRouter (snd (aggregateTokenData jsonText 0 50
       (newDataAggregator 0 [failingMockProvider ''primary'' [''price''],
                             failingMockProvider ''backup'' [''price'']] [])
       \<lparr>assetUnit = ''lovelace'', tok_fields = [''price''], tok_strategy = None\<rparr>))) ''backup'')
     = Some 1"
  by (simp add: router_eval fixture_eval exec_eval resolve_eval build_eval updateMetrics_def
      Let_def)

end
